theory Spec2Isabelle
  imports Main "HOL-Library.Char_ord" "HOL-Library.List_Lexorder" "HOL-Library.Multiset"
begin

section \<open>Python values of the model layer\<close>

text \<open>
  The module \<^verbatim>\<open>model/base_model.py\<close> manipulates arbitrary Python objects. The
  embedding represents them as trees:
  \<^item> scalars \<^verbatim>\<open>None\<close>, \<^verbatim>\<open>bool\<close>, \<^verbatim>\<open>int\<close>, \<^verbatim>\<open>str\<close> and \<^verbatim>\<open>datetime.datetime\<close> (an
    abstract point in time); floats are left out;
  \<^item> type objects (\<^verbatim>\<open>str\<close>, \<^verbatim>\<open>int\<close>, a wrapper class, a record class);
  \<^item> lists, and dicts with string keys as association lists in insertion order;
  \<^item> instances of \<^verbatim>\<open>BaseDataModel\<close> subclasses: the class name and \<^verbatim>\<open>__dict__\<close>;
  \<^item> instances of the \<^verbatim>\<open>BaseValueModel\<close> hierarchy, one constructor per class,
    carrying the attributes that the class's \<^verbatim>\<open>__init__\<close> sets, in parameter order.

  Objects are values here: two fields never share one object. Class-level state
  (\<^verbatim>\<open>DATA_DEFAULT_FORMAT\<close> and the other class attributes) lives in an explicit class
  table that the operations which mutate it return updated.

  The trees do not say which objects are one and the same, and the operator methods
  by which a \<^verbatim>\<open>LimitedValueModel\<close> forwards \<^verbatim>\<open>bool\<close>, \<^verbatim>\<open>==\<close> and \<^verbatim>\<open><=\<close> to its
  stored value are not computed here: where an operator meets a wrapper or a record
  instance as an operand, its result is a parameter of the development (see
  \<open>pylib\<close> below), and on all other operands it is computed. The forwarding of
  \<^verbatim>\<open>len\<close>, \<^verbatim>\<open>+\<close> and attribute access by a \<^verbatim>\<open>LimitedValueModel\<close> is not followed. The methods
  \<^verbatim>\<open>default_value\<close>, \<^verbatim>\<open>upgrade\<close>, \<^verbatim>\<open>_to_dict\<close>, \<^verbatim>\<open>to_json\<close> and \<^verbatim>\<open>load_easy_data\<close> are
  not part of this development.
\<close>

type_synonym cname = string

datatype wclass =
    CBaseValueModel | CLimitedValueModel | CBetweenValueModel | CComplexValueModel
  | CDateTimeValueModel | CDateTimeIntValueModel | CFixedValueModel
  | CListComplexValueModel | CNumberBetweenValueModel | CListBetweenValueModel
  | CBaseDBValueModel

datatype pytype =
    TNoneType | TBool | TInt | TStr | TList | TDict | TDateTime | TType
  | TWrapper wclass | TRecord cname

datatype val =
    VNone
  | VBool bool
  | VInt int
  | VStr string
  | VDateTime int
  | VType pytype
  | VList "val list"
  | VDict "(string \<times> val) list"
  | VRec cname "(string \<times> val) list"
  | VWrap wrapper
and wrapper =
    WBase
  | WBaseDB
  | WLimited val
  | WBetween val
  | WComplex val bool
  | WDateTime string val bool
  | WDateTimeInt val bool
  | WFixed val bool val
  | WListComplex val bool bool val bool
  | WNumberBetween val int int
  | WListBetween val "val list"

text \<open>
  Attribute order of the wrapper constructors:
  \<^verbatim>\<open>WComplex default_value required\<close>,
  \<^verbatim>\<open>WDateTime formatter default_value required\<close>,
  \<^verbatim>\<open>WDateTimeInt default_value required\<close>,
  \<^verbatim>\<open>WFixed default_value required value_cls\<close>,
  \<^verbatim>\<open>WListComplex default_value required need_size value_cls support_dict_value\<close>,
  \<^verbatim>\<open>WNumberBetween default_value min max\<close>,
  \<^verbatim>\<open>WListBetween default_value value_list\<close>.
  The bounds of a \<^verbatim>\<open>NumberBetweenValueModel\<close> are integers and the \<^verbatim>\<open>value_list\<close>
  of a \<^verbatim>\<open>ListBetweenValueModel\<close> is a list.
\<close>

datatype assert_msg =
    ConstraintNotMet
  | UnexpectedType
  | NotAList
  | BadElement nat
  | LengthMismatch
  | FormatMismatch

datatype error =
    AssertionError assert_msg
  | ValueError
  | RuntimeError
  | TypeError
  | AttributeError
  | KeyError
  | IndexError

text \<open>
  What the Python runtime supplies and the trees do not determine is a parameter of
  the model. The library functions of \<^verbatim>\<open>datetime\<close> that the timestamp wrappers call:
  \<open>strptime\<close> (\<open>None\<close> when the string does not match the format, where Python
  raises ValueError), \<open>strftime\<close>, the clock \<open>now\<close> and \<open>timestamp\<close> (already
  truncated to whole seconds). And the operators on objects:
  \<^item> \<open>object_bool x\<close>: \<^verbatim>\<open>bool(x)\<close> for an instance \<open>x\<close> of the \<^verbatim>\<open>LimitedValueModel\<close>
    family, whose \<^verbatim>\<open>__bool__\<close> forwards to \<^verbatim>\<open>self.value()\<close>;
  \<^item> \<open>object_le a b\<close>: \<^verbatim>\<open>a <= b\<close> where an operand is such an instance (\<^verbatim>\<open>__le__\<close>
    and \<^verbatim>\<open>__ge__\<close> forward likewise);
  \<^item> \<open>object_eq a b\<close>: \<^verbatim>\<open>a == b\<close> where an operand is, or contains, a wrapper or a
    record instance (\<^verbatim>\<open>__eq__\<close> forwards, and objects without \<^verbatim>\<open>__eq__\<close> are compared
    by identity);
  \<^item> \<open>same_object a b\<close>: \<^verbatim>\<open>a is b\<close> for such operands.
  Each may raise, hence the sum type.
\<close>

record pylib =
  strptime :: "string \<Rightarrow> string \<Rightarrow> int option"
  strftime :: "int \<Rightarrow> string \<Rightarrow> string"
  now :: int
  timestamp :: "int \<Rightarrow> int"
  object_bool :: "val \<Rightarrow> error + bool"
  object_le :: "val \<Rightarrow> val \<Rightarrow> error + bool"
  object_eq :: "val \<Rightarrow> val \<Rightarrow> error + bool"
  same_object :: "val \<Rightarrow> val \<Rightarrow> bool"

record classdef =
  bases :: "cname list"
  DATA_DEFAULT_FORMAT :: "(string \<times> val) list"
  STRICT_MODE :: bool
  EQUALS_IGNORE_KEYS :: "string list"
  keys_limited :: "string list"

text \<open>
  A class table gives every record class its attributes after inheritance: \<open>bases\<close> are
  the proper ancestors among the record classes, \<open>keys_limited\<close> is the cached
  \<^verbatim>\<open>dir(cls)\<close> that \<^verbatim>\<open>_check_key_format\<close> reads. A class derived from the module's
  classes is taken to bind these class attributes and to override no method.
\<close>

type_synonym classes = "cname \<Rightarrow> classdef"

subsection \<open>Types, truth values, equality\<close>

fun wclass_of :: "wrapper \<Rightarrow> wclass" where
  "wclass_of WBase = CBaseValueModel"
| "wclass_of WBaseDB = CBaseDBValueModel"
| "wclass_of (WLimited _) = CLimitedValueModel"
| "wclass_of (WBetween _) = CBetweenValueModel"
| "wclass_of (WComplex _ _) = CComplexValueModel"
| "wclass_of (WDateTime _ _ _) = CDateTimeValueModel"
| "wclass_of (WDateTimeInt _ _) = CDateTimeIntValueModel"
| "wclass_of (WFixed _ _ _) = CFixedValueModel"
| "wclass_of (WListComplex _ _ _ _ _) = CListComplexValueModel"
| "wclass_of (WNumberBetween _ _ _) = CNumberBetweenValueModel"
| "wclass_of (WListBetween _ _) = CListBetweenValueModel"

text \<open>The method resolution order of each wrapper class, as the class statements give it.\<close>

fun wmro :: "wclass \<Rightarrow> wclass list" where
  "wmro CBaseValueModel = [CBaseValueModel]"
| "wmro CLimitedValueModel = [CLimitedValueModel, CBaseValueModel]"
| "wmro CBetweenValueModel = [CBetweenValueModel, CLimitedValueModel, CBaseValueModel]"
| "wmro CComplexValueModel = [CComplexValueModel, CLimitedValueModel, CBaseValueModel]"
| "wmro CDateTimeValueModel =
     [CDateTimeValueModel, CComplexValueModel, CLimitedValueModel, CBaseValueModel]"
| "wmro CDateTimeIntValueModel =
     [CDateTimeIntValueModel, CComplexValueModel, CLimitedValueModel, CBaseValueModel]"
| "wmro CFixedValueModel =
     [CFixedValueModel, CComplexValueModel, CLimitedValueModel, CBaseValueModel]"
| "wmro CListComplexValueModel =
     [CListComplexValueModel, CComplexValueModel, CLimitedValueModel, CBaseValueModel]"
| "wmro CNumberBetweenValueModel =
     [CNumberBetweenValueModel, CBetweenValueModel, CLimitedValueModel, CBaseValueModel]"
| "wmro CListBetweenValueModel =
     [CListBetweenValueModel, CBetweenValueModel, CLimitedValueModel, CBaseValueModel]"
| "wmro CBaseDBValueModel = [CBaseDBValueModel, CBaseValueModel]"

fun type_of :: "val \<Rightarrow> pytype" where
  "type_of VNone = TNoneType"
| "type_of (VBool _) = TBool"
| "type_of (VInt _) = TInt"
| "type_of (VStr _) = TStr"
| "type_of (VDateTime _) = TDateTime"
| "type_of (VType _) = TType"
| "type_of (VList _) = TList"
| "type_of (VDict _) = TDict"
| "type_of (VRec c _) = TRecord c"
| "type_of (VWrap w) = TWrapper (wclass_of w)"

fun issubclass :: "classes \<Rightarrow> pytype \<Rightarrow> pytype \<Rightarrow> bool" where
  "issubclass cs (TWrapper c) (TWrapper d) = (d \<in> set (wmro c))"
| "issubclass cs (TRecord c) (TRecord d) = (c = d \<or> d \<in> set (bases (cs c)))"
| "issubclass cs TBool TInt = True"
| "issubclass cs s t = (s = t)"

text \<open>
  \<^verbatim>\<open>isinstance(v, t)\<close>: a TypeError when \<open>t\<close> is not a type object (tuples of
  types are not modelled).
\<close>

fun isinstance :: "classes \<Rightarrow> val \<Rightarrow> val \<Rightarrow> error + bool" where
  "isinstance cs v (VType t) = Inr (issubclass cs (type_of v) t)"
| "isinstance cs v _ = Inl TypeError"

fun is_record :: "val \<Rightarrow> bool" where
  "is_record (VRec _ _) = True"
| "is_record _ = False"

fun is_LimitedValueModel :: "val \<Rightarrow> bool" where
  "is_LimitedValueModel (VWrap w) = (CLimitedValueModel \<in> set (wmro (wclass_of w)))"
| "is_LimitedValueModel _ = False"

fun is_BaseValueModel :: "val \<Rightarrow> bool" where
  "is_BaseValueModel (VWrap w) = True"
| "is_BaseValueModel _ = False"

text \<open>
  \<^verbatim>\<open>bool(v)\<close>. A record instance and an instance of \<^verbatim>\<open>BaseValueModel\<close> or
  \<^verbatim>\<open>BaseDBValueModel\<close> define neither \<^verbatim>\<open>__bool__\<close> nor \<^verbatim>\<open>__len__\<close> and are true, as
  are type objects and datetimes; for an instance of the \<^verbatim>\<open>LimitedValueModel\<close>
  family the runtime calls \<^verbatim>\<open>__bool__\<close>.
\<close>

fun truthy :: "pylib \<Rightarrow> val \<Rightarrow> error + bool" where
  "truthy L VNone = Inr False"
| "truthy L (VBool b) = Inr b"
| "truthy L (VInt i) = Inr (i \<noteq> 0)"
| "truthy L (VStr s) = Inr (s \<noteq> [])"
| "truthy L (VDateTime _) = Inr True"
| "truthy L (VType _) = Inr True"
| "truthy L (VList xs) = Inr (xs \<noteq> [])"
| "truthy L (VDict kvs) = Inr (kvs \<noteq> [])"
| "truthy L (VRec _ _) = Inr True"
| "truthy L (VWrap w) =
     (if is_LimitedValueModel (VWrap w) then object_bool L (VWrap w) else Inr True)"

text \<open>
  Numbers: \<^verbatim>\<open>bool\<close> is a subclass of \<^verbatim>\<open>int\<close>, \<^verbatim>\<open>True == 1\<close>.
\<close>

fun num_of :: "val \<Rightarrow> int option" where
  "num_of (VBool b) = Some (if b then 1 else 0)"
| "num_of (VInt i) = Some i"
| "num_of _ = None"

text \<open>
  Plain data: the values that hold no wrapper and no record instance, at any depth.
  On plain data \<^verbatim>\<open>==\<close> never raises and needs no identity: numbers compare by
  value, lists element by element, dicts by their keys and the values under them
  whatever the insertion order, type objects by the type they are, and operands of
  different kinds are unequal.
\<close>

datatype plain =
    PNone
  | PBool bool
  | PInt int
  | PStr string
  | PDateTime int
  | PType pytype
  | PList "plain list"
  | PDict "(string \<times> plain) list"

fun to_plain :: "val \<Rightarrow> plain option"
  and to_plain_list :: "val list \<Rightarrow> plain list option"
  and to_plain_items :: "(string \<times> val) list \<Rightarrow> (string \<times> plain) list option"
where
  "to_plain VNone = Some PNone"
| "to_plain (VBool b) = Some (PBool b)"
| "to_plain (VInt i) = Some (PInt i)"
| "to_plain (VStr s) = Some (PStr s)"
| "to_plain (VDateTime t) = Some (PDateTime t)"
| "to_plain (VType t) = Some (PType t)"
| "to_plain (VList xs) = map_option PList (to_plain_list xs)"
| "to_plain (VDict kvs) = map_option PDict (to_plain_items kvs)"
| "to_plain (VRec c fs) = None"
| "to_plain (VWrap w) = None"
| "to_plain_list [] = Some []"
| "to_plain_list (x # xs) =
     (case to_plain x of
        None \<Rightarrow> None
      | Some p \<Rightarrow> map_option ((#) p) (to_plain_list xs))"
| "to_plain_items [] = Some []"
| "to_plain_items ((k, v) # kvs) =
     (case to_plain v of
        None \<Rightarrow> None
      | Some p \<Rightarrow> map_option ((#) (k, p)) (to_plain_items kvs))"

fun pnum_of :: "plain \<Rightarrow> int option" where
  "pnum_of (PBool b) = Some (if b then 1 else 0)"
| "pnum_of (PInt i) = Some i"
| "pnum_of _ = None"

fun plain_eq :: "plain \<Rightarrow> plain \<Rightarrow> bool"
  and plain_eq_list :: "plain list \<Rightarrow> plain list \<Rightarrow> bool"
  and plain_eq_items :: "(string \<times> plain) list \<Rightarrow> (string \<times> plain) list \<Rightarrow> bool"
where
  "plain_eq (PList xs) b = (case b of PList ys \<Rightarrow> plain_eq_list xs ys | _ \<Rightarrow> False)"
| "plain_eq (PDict kvs) b =
     (case b of
        PDict bkvs \<Rightarrow> length kvs = length bkvs \<and> plain_eq_items kvs bkvs
      | _ \<Rightarrow> False)"
| "plain_eq a b =
     (case (pnum_of a, pnum_of b) of
        (Some x, Some y) \<Rightarrow> x = y
      | _ \<Rightarrow> a = b)"
| "plain_eq_list [] ys = (ys = [])"
| "plain_eq_list (x # xs) ys =
     (case ys of
        [] \<Rightarrow> False
      | y # ys' \<Rightarrow> plain_eq x y \<and> plain_eq_list xs ys')"
| "plain_eq_items [] bkvs = True"
| "plain_eq_items ((k, v) # kvs) bkvs =
     (case map_of bkvs k of
        None \<Rightarrow> False
      | Some bv \<Rightarrow> plain_eq v bv \<and> plain_eq_items kvs bkvs)"

text \<open>
  \<^verbatim>\<open>a == b\<close>: computed on plain data, the runtime's answer otherwise.
\<close>

definition py_eq :: "pylib \<Rightarrow> val \<Rightarrow> val \<Rightarrow> error + bool" where
  "py_eq L a b =
     (case (to_plain a, to_plain b) of
        (Some p, Some q) \<Rightarrow> Inr (plain_eq p q)
      | _ \<Rightarrow> object_eq L a b)"

text \<open>
  The test that \<^verbatim>\<open>in\<close> makes on an item \<open>e\<close> of a list and the value \<open>x\<close> looked
  for, \<^verbatim>\<open>e is x or e == x\<close>. On plain data the identity test adds nothing: equal
  trees are \<^verbatim>\<open>==\<close>.
\<close>

definition item_matches :: "pylib \<Rightarrow> val \<Rightarrow> val \<Rightarrow> error + bool" where
  "item_matches L e x =
     (case (to_plain e, to_plain x) of
        (Some p, Some q) \<Rightarrow> Inr (plain_eq p q)
      | _ \<Rightarrow> if same_object L e x then Inr True else object_eq L e x)"

text \<open>
  \<^verbatim>\<open>x in xs\<close> for a list \<open>xs\<close>: the items in order, up to the first that matches or
  whose comparison raises.
\<close>

fun py_in :: "pylib \<Rightarrow> val \<Rightarrow> val list \<Rightarrow> error + bool" where
  "py_in L x [] = Inr False"
| "py_in L x (e # es) =
     (case item_matches L e x of
        Inl err \<Rightarrow> Inl err
      | Inr True \<Rightarrow> Inr True
      | Inr False \<Rightarrow> py_in L x es)"

text \<open>
  \<^verbatim>\<open>i <= v\<close> and \<^verbatim>\<open>v <= i\<close> for an \<^verbatim>\<open>int\<close> \<open>i\<close>: between numbers the order of the
  integers; with an instance of the \<^verbatim>\<open>LimitedValueModel\<close> family the runtime's
  answer; with any other operand a TypeError.
\<close>

definition int_le :: "pylib \<Rightarrow> int \<Rightarrow> val \<Rightarrow> error + bool" where
  "int_le L i v =
     (case num_of v of
        Some y \<Rightarrow> Inr (i \<le> y)
      | None \<Rightarrow> if is_LimitedValueModel v then object_le L (VInt i) v else Inl TypeError)"

definition le_int :: "pylib \<Rightarrow> val \<Rightarrow> int \<Rightarrow> error + bool" where
  "le_int L v i =
     (case num_of v of
        Some x \<Rightarrow> Inr (x \<le> i)
      | None \<Rightarrow> if is_LimitedValueModel v then object_le L v (VInt i) else Inl TypeError)"

subsection \<open>Dicts as association lists\<close>

text \<open>\<^verbatim>\<open>d[k] = v\<close>: an existing key keeps its position, a new key goes last.\<close>

fun dict_set :: "(string \<times> val) list \<Rightarrow> string \<Rightarrow> val \<Rightarrow> (string \<times> val) list" where
  "dict_set [] k v = [(k, v)]"
| "dict_set ((k', v') # kvs) k v =
     (if k' = k then (k, v) # kvs else (k', v') # dict_set kvs k v)"

definition dict_keys :: "(string \<times> val) list \<Rightarrow> string list" where
  "dict_keys kvs = map fst kvs"

definition dict_get :: "(string \<times> val) list \<Rightarrow> string \<Rightarrow> val option" where
  "dict_get kvs k = map_of kvs k"

section \<open>The value wrappers\<close>

subsection \<open>apply\<close>

text \<open>
  \<^verbatim>\<open>self.default_value = value\<close> on a wrapper of any class below
  \<^verbatim>\<open>LimitedValueModel\<close>; the two classes without that attribute gain nothing here.
\<close>

fun set_default_value :: "wrapper \<Rightarrow> val \<Rightarrow> wrapper" where
  "set_default_value WBase v = WBase"
| "set_default_value WBaseDB v = WBaseDB"
| "set_default_value (WLimited _) v = WLimited v"
| "set_default_value (WBetween _) v = WBetween v"
| "set_default_value (WComplex _ r) v = WComplex v r"
| "set_default_value (WDateTime f _ r) v = WDateTime f v r"
| "set_default_value (WDateTimeInt _ r) v = WDateTimeInt v r"
| "set_default_value (WFixed _ r c) v = WFixed v r c"
| "set_default_value (WListComplex _ r n c s) v = WListComplex v r n c s"
| "set_default_value (WNumberBetween _ lo hi) v = WNumberBetween v lo hi"
| "set_default_value (WListBetween _ vl) v = WListBetween v vl"

text \<open>
  Every \<open>apply\<close> returns the state of the wrapper after the call, and the value
  returned or the exception raised. \<^verbatim>\<open>LimitedValueModel.apply\<close>:
  \<^verbatim>\<open>
    self.default_value = value
    return value
  \<close>
\<close>

definition LimitedValueModel_apply :: "wrapper \<Rightarrow> val \<Rightarrow> wrapper \<times> (error + val)" where
  "LimitedValueModel_apply w v = (set_default_value w v, Inr v)"

text \<open>
  \<^verbatim>\<open>DateTimeValueModel.apply\<close>: a datetime is stored, a string is parsed with the
  formatter, anything else reaches \<^verbatim>\<open>raise NotImplemented("...")\<close>, which is a
  TypeError (\<^verbatim>\<open>NotImplemented\<close> is not callable).
\<close>

definition DateTimeValueModel_apply ::
  "pylib \<Rightarrow> string \<Rightarrow> val \<Rightarrow> bool \<Rightarrow> val \<Rightarrow> wrapper \<times> (error + val)" where
  "DateTimeValueModel_apply L formatter d required v =
     (case v of
        VDateTime t \<Rightarrow> (WDateTime formatter v required, Inr v)
      | VStr s \<Rightarrow>
          (case strptime L s formatter of
             None \<Rightarrow> (WDateTime formatter d required, Inl ValueError)
           | Some t \<Rightarrow> (WDateTime formatter (VDateTime t) required, Inr v))
      | _ \<Rightarrow> (WDateTime formatter d required, Inl TypeError))"

text \<open>
  \<^verbatim>\<open>DateTimeIntValueModel.apply\<close> parses a string with \<^verbatim>\<open>self.default_value\<close> as the
  format; \<^verbatim>\<open>strptime\<close> raises TypeError when that is not a string.
\<close>

definition DateTimeIntValueModel_apply ::
  "pylib \<Rightarrow> val \<Rightarrow> bool \<Rightarrow> val \<Rightarrow> wrapper \<times> (error + val)" where
  "DateTimeIntValueModel_apply L d required v =
     (case v of
        VDateTime t \<Rightarrow> (WDateTimeInt v required, Inr v)
      | VStr s \<Rightarrow>
          (case d of
             VStr fmt \<Rightarrow>
               (case strptime L s fmt of
                  None \<Rightarrow> (WDateTimeInt d required, Inl ValueError)
                | Some t \<Rightarrow> (WDateTimeInt (VDateTime t) required, Inr v))
           | _ \<Rightarrow> (WDateTimeInt d required, Inl TypeError))
      | _ \<Rightarrow> (WDateTimeInt d required, Inl TypeError))"

text \<open>
  \<^verbatim>\<open>NumberBetweenValueModel.apply\<close>:
  \<^verbatim>\<open>
    if self.min <= value <= self.min:
        self.default_value = value
        return value
    else:
        raise ValueError(...)
  \<close>
  The chained comparison evaluates \<^verbatim>\<open>self.min <= value\<close> and, when that holds,
  \<^verbatim>\<open>value <= self.min\<close>.
\<close>

definition NumberBetweenValueModel_apply ::
  "pylib \<Rightarrow> val \<Rightarrow> int \<Rightarrow> int \<Rightarrow> val \<Rightarrow> wrapper \<times> (error + val)" where
  "NumberBetweenValueModel_apply L d min_value max_value v =
     (case int_le L min_value v of
        Inl e \<Rightarrow> (WNumberBetween d min_value max_value, Inl e)
      | Inr False \<Rightarrow> (WNumberBetween d min_value max_value, Inl ValueError)
      | Inr True \<Rightarrow>
          (case le_int L v min_value of
             Inl e \<Rightarrow> (WNumberBetween d min_value max_value, Inl e)
           | Inr False \<Rightarrow> (WNumberBetween d min_value max_value, Inl ValueError)
           | Inr True \<Rightarrow> (WNumberBetween v min_value max_value, Inr v)))"

text \<open>
  \<^verbatim>\<open>ListBetweenValueModel.apply\<close>:
  \<^verbatim>\<open>
    if self.value_list and value in self.value_list:
        if isinstance(self.default_value, list):
            self.default_value.append(value)
        else:
            self.default_value = [value]
        return value
    else:
        raise ValueError(...)
  \<close>
  The stored list and \<^verbatim>\<open>value_list\<close> are taken to be two objects.
\<close>

definition ListBetweenValueModel_apply ::
  "pylib \<Rightarrow> val \<Rightarrow> val list \<Rightarrow> val \<Rightarrow> wrapper \<times> (error + val)" where
  "ListBetweenValueModel_apply L d value_list v =
     (if value_list = [] then (WListBetween d value_list, Inl ValueError)
      else
        (case py_in L v value_list of
           Inl e \<Rightarrow> (WListBetween d value_list, Inl e)
         | Inr False \<Rightarrow> (WListBetween d value_list, Inl ValueError)
         | Inr True \<Rightarrow>
             (case d of
                VList acc \<Rightarrow> (WListBetween (VList (acc @ [v])) value_list, Inr v)
              | _ \<Rightarrow> (WListBetween (VList [v]) value_list, Inr v))))"

text \<open>
  Method resolution of \<^verbatim>\<open>apply\<close>: \<^verbatim>\<open>BaseValueModel.apply\<close> (inherited by
  \<^verbatim>\<open>BaseDBValueModel\<close>) executes \<^verbatim>\<open>raise NotImplemented("...")\<close>, a TypeError.
\<close>

fun apply_method :: "pylib \<Rightarrow> wrapper \<Rightarrow> val \<Rightarrow> wrapper \<times> (error + val)" where
  "apply_method L WBase v = (WBase, Inl TypeError)"
| "apply_method L WBaseDB v = (WBaseDB, Inl TypeError)"
| "apply_method L (WDateTime f d r) v = DateTimeValueModel_apply L f d r v"
| "apply_method L (WDateTimeInt d r) v = DateTimeIntValueModel_apply L d r v"
| "apply_method L (WNumberBetween d lo hi) v = NumberBetweenValueModel_apply L d lo hi v"
| "apply_method L (WListBetween d vl) v = ListBetweenValueModel_apply L d vl v"
| "apply_method L w v = LimitedValueModel_apply w v"

section \<open>Record instances: construction and assignment\<close>

text \<open>
  \<^verbatim>\<open>_check_key_format(cls, formatter)\<close>: the formatter is a dict (the schema, at
  construction) or a string (a key, at assignment); a name of \<^verbatim>\<open>cls._keys_limited\<close>
  that is a key of the dict, or is the string, raises RuntimeError.
\<close>

definition check_key_format :: "classes \<Rightarrow> cname \<Rightarrow> val \<Rightarrow> error + unit" where
  "check_key_format cs c formatter =
     (if list_ex
           (\<lambda>key. case formatter of
                     VDict kvs \<Rightarrow> key \<in> set (dict_keys kvs)
                   | VStr s \<Rightarrow> key = s
                   | _ \<Rightarrow> False)
           (keys_limited (cs c))
      then Inl RuntimeError else Inr ())"

text \<open>
  \<^verbatim>\<open>getattr(self, key).apply(value)\<close> on the instance's \<^verbatim>\<open>__dict__\<close>: the wrapper
  stored at \<open>key\<close> is mutated in place (an \<open>apply\<close> that raises leaves its
  wrapper as it was, lemma \<open>apply_method_error_unchanged\<close> below, so an exception
  leaves \<^verbatim>\<open>__dict__\<close> as it was). A missing attribute, or a stored object without an
  \<^verbatim>\<open>apply\<close> method, is an AttributeError; a stored wrapper class (not an instance)
  has \<^verbatim>\<open>apply\<close> but is called without \<^verbatim>\<open>self\<close>, a TypeError.
\<close>

definition apply_field ::
  "pylib \<Rightarrow> (string \<times> val) list \<Rightarrow> string \<Rightarrow> val \<Rightarrow> error + (string \<times> val) list" where
  "apply_field L fs key v =
     (case dict_get fs key of
        Some (VWrap w) \<Rightarrow>
          (case apply_method L w v of
             (w', Inl e) \<Rightarrow> Inl e
           | (w', Inr _) \<Rightarrow> Inr (dict_set fs key (VWrap w')))
      | Some (VType (TWrapper _)) \<Rightarrow> Inl TypeError
      | _ \<Rightarrow> Inl AttributeError)"

text \<open>
  \<^verbatim>\<open>BaseDataModel.__setattr__(self, key, value)\<close>, on an instance of class \<open>c\<close> with
  \<^verbatim>\<open>__dict__\<close> \<open>fs\<close>; the result is the new \<^verbatim>\<open>__dict__\<close>.
  \<^verbatim>\<open>
    self._check_key_format(key)
    if self.STRICT_MODE:
        if key not in self.DATA_DEFAULT_FORMAT:
            raise RuntimeError(...)
    _value = self.DATA_DEFAULT_FORMAT.get(key)
    if _value is not None:
        if type(_value) == type(value):
            super().__setattr__(key, value)
        elif type(_value) == type and isinstance(value, _value):
            super().__setattr__(key, value)
        elif isinstance(_value, dict) and isinstance(value, BaseDataModel):
            super().__setattr__(key, value)
        elif isinstance(_value, LimitedValueModel):
            getattr(self, key).apply(value)
        elif isinstance(_value, BaseValueModel):
            super().__setattr__(key, value)
    else:
        super().__setattr__(key, value)
  \<close>
\<close>

definition BaseDataModel_setattr ::
  "pylib \<Rightarrow> classes \<Rightarrow> cname \<Rightarrow> (string \<times> val) list \<Rightarrow> string \<Rightarrow> val
     \<Rightarrow> error + (string \<times> val) list" where
  "BaseDataModel_setattr L cs c fs key v =
     (case check_key_format cs c (VStr key) of
        Inl e \<Rightarrow> Inl e
      | Inr _ \<Rightarrow>
          if STRICT_MODE (cs c) \<and> key \<notin> set (dict_keys (DATA_DEFAULT_FORMAT (cs c)))
          then Inl RuntimeError
          else
            (let d = (case dict_get (DATA_DEFAULT_FORMAT (cs c)) key of
                        None \<Rightarrow> VNone | Some x \<Rightarrow> x)
             in if d \<noteq> VNone then
                  (if type_of d = type_of v then Inr (dict_set fs key v)
                   else if (case d of VType t \<Rightarrow> issubclass cs (type_of v) t | _ \<Rightarrow> False)
                     then Inr (dict_set fs key v)
                   else if type_of d = TDict \<and> is_record v then Inr (dict_set fs key v)
                   else if is_LimitedValueModel d then apply_field L fs key v
                   else if is_BaseValueModel d then Inr (dict_set fs key v)
                   else Inr fs)
                else Inr (dict_set fs key v)))"

text \<open>
  \<^verbatim>\<open>update(self, dict_value)\<close>: one \<^verbatim>\<open>setattr\<close> per item of a dict, in order, stopping
  at the first exception; any other argument is ignored.
\<close>

fun update_items ::
  "pylib \<Rightarrow> classes \<Rightarrow> cname \<Rightarrow> (string \<times> val) list \<Rightarrow> (string \<times> val) list
     \<Rightarrow> error + (string \<times> val) list" where
  "update_items L cs c fs [] = Inr fs"
| "update_items L cs c fs ((k, v) # kvs) =
     (case BaseDataModel_setattr L cs c fs k v of
        Inl e \<Rightarrow> Inl e
      | Inr fs' \<Rightarrow> update_items L cs c fs' kvs)"

definition update ::
  "pylib \<Rightarrow> classes \<Rightarrow> cname \<Rightarrow> (string \<times> val) list \<Rightarrow> val
     \<Rightarrow> error + (string \<times> val) list" where
  "update L cs c fs dict_value =
     (case dict_value of
        VDict kvs \<Rightarrow> update_items L cs c fs kvs
      | _ \<Rightarrow> Inr fs)"

text \<open>
  \<^verbatim>\<open>BaseDataModel.__init__(self, **kwargs)\<close>:
  \<^verbatim>\<open>
    self._check_key_format(self.DATA_DEFAULT_FORMAT)
    data_formatter = copy.deepcopy(self.DATA_DEFAULT_FORMAT)
    self.__dict__.update(**self.pre_new(data_formatter))
    self.update(kwargs)
  \<close>
  The deep copy of a tree is the tree; \<^verbatim>\<open>pre_new\<close> is the identity of the base class.
\<close>

definition BaseDataModel_init ::
  "pylib \<Rightarrow> classes \<Rightarrow> cname \<Rightarrow> (string \<times> val) list \<Rightarrow> error + (string \<times> val) list" where
  "BaseDataModel_init L cs c kwargs =
     (case check_key_format cs c (VDict (DATA_DEFAULT_FORMAT (cs c))) of
        Inl e \<Rightarrow> Inl e
      | Inr _ \<Rightarrow> update L cs c (DATA_DEFAULT_FORMAT (cs c)) (VDict kwargs))"

section \<open>The value wrappers: value\<close>

text \<open>
  \<^verbatim>\<open>ComplexValueModel.value\<close>:
  \<^verbatim>\<open>
    if self.required:
        assert self.default_value, "..."
    return self.default_value
  \<close>
\<close>

definition ComplexValueModel_value :: "pylib \<Rightarrow> val \<Rightarrow> bool \<Rightarrow> error + val" where
  "ComplexValueModel_value L d required =
     (if required then
        (case truthy L d of
           Inl e \<Rightarrow> Inl e
         | Inr False \<Rightarrow> Inl (AssertionError ConstraintNotMet)
         | Inr True \<Rightarrow> Inr d)
      else Inr d)"

text \<open>
  \<^verbatim>\<open>DateTimeValueModel.value\<close>: the stored datetime, or the clock when the stored
  value is false, formatted.
\<close>

definition DateTimeValueModel_value :: "pylib \<Rightarrow> string \<Rightarrow> val \<Rightarrow> bool \<Rightarrow> error + val" where
  "DateTimeValueModel_value L formatter d required =
     (case ComplexValueModel_value L d required of
        Inl e \<Rightarrow> Inl e
      | Inr dt \<Rightarrow>
          (case truthy L dt of
             Inl e \<Rightarrow> Inl e
           | Inr True \<Rightarrow>
               (case dt of
                  VDateTime t \<Rightarrow> Inr (VStr (strftime L t formatter))
                | _ \<Rightarrow> Inl (AssertionError UnexpectedType))
           | Inr False \<Rightarrow> Inr (VStr (strftime L (now L) formatter))))"

definition DateTimeIntValueModel_value :: "pylib \<Rightarrow> val \<Rightarrow> bool \<Rightarrow> error + val" where
  "DateTimeIntValueModel_value L d required =
     (case ComplexValueModel_value L d required of
        Inl e \<Rightarrow> Inl e
      | Inr dt \<Rightarrow>
          (case truthy L dt of
             Inl e \<Rightarrow> Inl e
           | Inr True \<Rightarrow>
               (case dt of
                  VDateTime t \<Rightarrow> Inr (VInt (timestamp L t))
                | _ \<Rightarrow> Inl (AssertionError UnexpectedType))
           | Inr False \<Rightarrow> Inr (VInt (timestamp L (now L)))))"

text \<open>
  \<^verbatim>\<open>FixedValueModel.value\<close>:
  \<^verbatim>\<open>
    tmp_value = super().value()
    assert not tmp_value or isinstance(tmp_value, self.value_cls), "..."
    return tmp_value
  \<close>
\<close>

definition FixedValueModel_value ::
  "pylib \<Rightarrow> classes \<Rightarrow> val \<Rightarrow> bool \<Rightarrow> val \<Rightarrow> error + val" where
  "FixedValueModel_value L cs d required value_cls =
     (case ComplexValueModel_value L d required of
        Inl e \<Rightarrow> Inl e
      | Inr tmp_value \<Rightarrow>
          (case truthy L tmp_value of
             Inl e \<Rightarrow> Inl e
           | Inr False \<Rightarrow> Inr tmp_value
           | Inr True \<Rightarrow>
               (case isinstance cs tmp_value value_cls of
                  Inl e \<Rightarrow> Inl e
                | Inr True \<Rightarrow> Inr tmp_value
                | Inr False \<Rightarrow> Inl (AssertionError UnexpectedType))))"

text \<open>
  Calling a type object without arguments, \<^verbatim>\<open>self.value_cls()\<close>: the builtins give
  their empty value, a record class runs \<^verbatim>\<open>__init__\<close>, a wrapper class whose
  \<^verbatim>\<open>__init__\<close> has a parameter without default is a TypeError, as are
  \<^verbatim>\<open>datetime.datetime()\<close> and \<^verbatim>\<open>type()\<close>.
\<close>

fun call_type :: "pylib \<Rightarrow> classes \<Rightarrow> pytype \<Rightarrow> error + val" where
  "call_type L cs TNoneType = Inr VNone"
| "call_type L cs TBool = Inr (VBool False)"
| "call_type L cs TInt = Inr (VInt 0)"
| "call_type L cs TStr = Inr (VStr [])"
| "call_type L cs TList = Inr (VList [])"
| "call_type L cs TDict = Inr (VDict [])"
| "call_type L cs TDateTime = Inl TypeError"
| "call_type L cs TType = Inl TypeError"
| "call_type L cs (TWrapper CBaseValueModel) = Inr (VWrap WBase)"
| "call_type L cs (TWrapper CBaseDBValueModel) = Inr (VWrap WBaseDB)"
| "call_type L cs (TWrapper CComplexValueModel) = Inr (VWrap (WComplex VNone False))"
| "call_type L cs (TWrapper CDateTimeIntValueModel) = Inr (VWrap (WDateTimeInt VNone False))"
| "call_type L cs (TWrapper CFixedValueModel) = Inr (VWrap (WFixed VNone False VNone))"
| "call_type L cs (TWrapper CListComplexValueModel) =
     Inr (VWrap (WListComplex (VList []) False False VNone False))"
| "call_type L cs (TWrapper _) = Inl TypeError"
| "call_type L cs (TRecord c) =
     (case BaseDataModel_init L cs c [] of
        Inl e \<Rightarrow> Inl e
      | Inr fs \<Rightarrow> Inr (VRec c fs))"

text \<open>
  The element loop of \<^verbatim>\<open>ListComplexValueModel.value\<close>:
  \<^verbatim>\<open>
    for index, k in enumerate(tmp_value):
        if not isinstance(k, self.value_cls):
            if isinstance(k, dict) and isinstance(self.value_cls(), BaseDataModel):
                if self.support_dict_value:
                    return tmp_value
                s0 = sorted(k.keys())
                s1 = sorted(self.value_cls.DATA_DEFAULT_FORMAT.keys())
                if self.value_cls.STRICT_MODE:
                    if s0 == s1:
                        return tmp_value
                else:
                    if s1 in s0:
                        return tmp_value
                    else:
                        pass
            assert False, f"{index} ..."
    return tmp_value
  \<close>
  \<^verbatim>\<open>s1 in s0\<close> asks whether the list \<open>s1\<close> is an element of the list of strings
  \<open>s0\<close>. An instance of \<^verbatim>\<open>self.value_cls()\<close> is a \<^verbatim>\<open>BaseDataModel\<close> exactly when
  \<^verbatim>\<open>value_cls\<close> is a record class.
\<close>

fun elements_loop ::
  "pylib \<Rightarrow> classes \<Rightarrow> val \<Rightarrow> bool \<Rightarrow> val list \<Rightarrow> nat \<Rightarrow> val list \<Rightarrow> error + val" where
  "elements_loop L cs value_cls support_dict_value tmp_value index [] = Inr (VList tmp_value)"
| "elements_loop L cs value_cls support_dict_value tmp_value index (k # ks) =
     (case isinstance cs k value_cls of
        Inl e \<Rightarrow> Inl e
      | Inr True \<Rightarrow> elements_loop L cs value_cls support_dict_value tmp_value (Suc index) ks
      | Inr False \<Rightarrow>
          (case (k, value_cls) of
             (VDict kvs, VType t) \<Rightarrow>
               (case call_type L cs t of
                  Inl e \<Rightarrow> Inl e
                | Inr (VRec c _) \<Rightarrow>
                    if support_dict_value then Inr (VList tmp_value)
                    else
                      (let s0 = sort (dict_keys kvs);
                           s1 = sort (dict_keys (DATA_DEFAULT_FORMAT (cs c)))
                       in if STRICT_MODE (cs c) then
                            (if s0 = s1 then Inr (VList tmp_value)
                             else Inl (AssertionError (BadElement index)))
                          else
                            (case py_in L (VList (map VStr s1)) (map VStr s0) of
                               Inl e \<Rightarrow> Inl e
                             | Inr True \<Rightarrow> Inr (VList tmp_value)
                             | Inr False \<Rightarrow> Inl (AssertionError (BadElement index))))
                | Inr _ \<Rightarrow> Inl (AssertionError (BadElement index)))
           | _ \<Rightarrow> Inl (AssertionError (BadElement index))))"

text \<open>
  \<^verbatim>\<open>ListComplexValueModel.value\<close>:
  \<^verbatim>\<open>
    tmp_value = super().value()
    assert isinstance(tmp_value, list), "..."
    if self.required and self.need_size:
        assert len(tmp_value) > 0, "..."
    if self.value_cls and tmp_value:
        for ...
    return tmp_value
  \<close>
\<close>

definition ListComplexValueModel_value ::
  "pylib \<Rightarrow> classes \<Rightarrow> val \<Rightarrow> bool \<Rightarrow> bool \<Rightarrow> val \<Rightarrow> bool \<Rightarrow> error + val" where
  "ListComplexValueModel_value L cs d required need_size value_cls support_dict_value =
     (case ComplexValueModel_value L d required of
        Inl e \<Rightarrow> Inl e
      | Inr (VList tmp_value) \<Rightarrow>
          if required \<and> need_size \<and> \<not> length tmp_value > 0
          then Inl (AssertionError ConstraintNotMet)
          else
            (case truthy L value_cls of
               Inl e \<Rightarrow> Inl e
             | Inr False \<Rightarrow> Inr (VList tmp_value)
             | Inr True \<Rightarrow>
                 if tmp_value \<noteq> []
                 then elements_loop L cs value_cls support_dict_value tmp_value 0 tmp_value
                 else Inr (VList tmp_value))
      | Inr _ \<Rightarrow> Inl (AssertionError NotAList))"

text \<open>
  \<^verbatim>\<open>ListComplexValueModel.__init__\<close> replaces a false \<^verbatim>\<open>default_value\<close> by \<^verbatim>\<open>[]\<close>.
\<close>

definition new_ListComplexValueModel ::
  "pylib \<Rightarrow> val \<Rightarrow> bool \<Rightarrow> bool \<Rightarrow> val \<Rightarrow> bool \<Rightarrow> error + wrapper" where
  "new_ListComplexValueModel L default_value required need_size value_cls support_dict_value =
     (case truthy L default_value of
        Inl e \<Rightarrow> Inl e
      | Inr False \<Rightarrow>
          Inr (WListComplex (VList []) required need_size value_cls support_dict_value)
      | Inr True \<Rightarrow>
          Inr (WListComplex default_value required need_size value_cls support_dict_value))"

text \<open>
  Method resolution of \<^verbatim>\<open>value\<close>: \<^verbatim>\<open>LimitedValueModel.value\<close> returns the stored
  value; \<^verbatim>\<open>BaseValueModel.value\<close> executes \<^verbatim>\<open>raise NotImplemented("...")\<close>.
\<close>

fun value_method :: "pylib \<Rightarrow> classes \<Rightarrow> wrapper \<Rightarrow> error + val" where
  "value_method L cs WBase = Inl TypeError"
| "value_method L cs WBaseDB = Inl TypeError"
| "value_method L cs (WLimited d) = Inr d"
| "value_method L cs (WBetween d) = Inr d"
| "value_method L cs (WComplex d r) = ComplexValueModel_value L d r"
| "value_method L cs (WDateTime f d r) = DateTimeValueModel_value L f d r"
| "value_method L cs (WDateTimeInt d r) = DateTimeIntValueModel_value L d r"
| "value_method L cs (WFixed d r c) = FixedValueModel_value L cs d r c"
| "value_method L cs (WListComplex d r n c s) = ListComplexValueModel_value L cs d r n c s"
| "value_method L cs (WNumberBetween d _ _) = Inr d"
| "value_method L cs (WListBetween d _) = Inr d"

section \<open>The validate walk\<close>

text \<open>\<^verbatim>\<open>"%s" % i\<close> for an index of \<^verbatim>\<open>enumerate\<close>: the decimal digits.\<close>

fun str_nat :: "nat \<Rightarrow> string" where
  "str_nat n =
     (if n < 10 then [''0123456789'' ! n]
      else str_nat (n div 10) @ [''0123456789'' ! (n mod 10)])"

text \<open>
  \<^verbatim>\<open>cls.DATA_DEFAULT_FORMAT[k]\<close> mutated in place: the class table with the object
  stored at key \<open>k\<close> of the schema of class \<open>c\<close> replaced. Every class of the table
  owns its schema dict.
\<close>

definition set_schema_entry :: "classes \<Rightarrow> cname \<Rightarrow> string \<Rightarrow> val \<Rightarrow> classes" where
  "set_schema_entry cs c k v =
     cs(c := (cs c)\<lparr>DATA_DEFAULT_FORMAT := dict_set (DATA_DEFAULT_FORMAT (cs c)) k v\<rparr>)"

text \<open>
  \<^verbatim>\<open>_check_value(cls, k, v)\<close>; the result is the class table after the call and the
  exception raised, if any.
  \<^verbatim>\<open>
    if type(v) == type:
        raise ValueError(...)
    elif isinstance(v, BaseDataModel):
        v._check_value("%s(%s)" % (k, v.__class__.__name__), v.__dict__)
    elif isinstance(v, list):
        for i, p in enumerate(v):
            cls._check_value("%s[%s]" % (k, i), p)
    elif isinstance(v, dict):
        for _k, _v in v.items():
            cls._check_value("%s.%s" % (k, _k), _v)
    elif k in cls.DATA_DEFAULT_FORMAT and isinstance(cls.DATA_DEFAULT_FORMAT[k], BaseValueModel):
        cls.DATA_DEFAULT_FORMAT[k].apply(v)
    elif isinstance(v, LimitedValueModel):
        v.value()
  \<close>
\<close>

fun check_value :: "pylib \<Rightarrow> classes \<Rightarrow> cname \<Rightarrow> string \<Rightarrow> val \<Rightarrow> classes \<times> error option"
  and check_list ::
    "pylib \<Rightarrow> classes \<Rightarrow> cname \<Rightarrow> string \<Rightarrow> nat \<Rightarrow> val list \<Rightarrow> classes \<times> error option"
  and check_items ::
    "pylib \<Rightarrow> classes \<Rightarrow> cname \<Rightarrow> string \<Rightarrow> (string \<times> val) list \<Rightarrow> classes \<times> error option"
where
  "check_value L cs c k (VType t) = (cs, Some ValueError)"
| "check_value L cs c k (VRec c' fs) =
     check_items L cs c' (k @ ''('' @ c' @ '')'') fs"
| "check_value L cs c k (VList vs) = check_list L cs c k 0 vs"
| "check_value L cs c k (VDict kvs) = check_items L cs c k kvs"
| "check_value L cs c k v =
     (case dict_get (DATA_DEFAULT_FORMAT (cs c)) k of
        Some (VWrap d) \<Rightarrow>
          (case apply_method L d v of
             (d', Inl e) \<Rightarrow> (set_schema_entry cs c k (VWrap d'), Some e)
           | (d', Inr _) \<Rightarrow> (set_schema_entry cs c k (VWrap d'), None))
      | _ \<Rightarrow>
          (case v of
             VWrap w \<Rightarrow>
               (if is_LimitedValueModel v then
                  (case value_method L cs w of
                     Inl e \<Rightarrow> (cs, Some e)
                   | Inr _ \<Rightarrow> (cs, None))
                else (cs, None))
           | _ \<Rightarrow> (cs, None)))"
| "check_list L cs c k i [] = (cs, None)"
| "check_list L cs c k i (p # ps) =
     (case check_value L cs c (k @ ''['' @ str_nat i @ '']'') p of
        (cs', Some e) \<Rightarrow> (cs', Some e)
      | (cs', None) \<Rightarrow> check_list L cs' c k (Suc i) ps)"
| "check_items L cs c k [] = (cs, None)"
| "check_items L cs c k ((k', v') # kvs) =
     (case check_value L cs c (k @ ''.'' @ k') v' of
        (cs', Some e) \<Rightarrow> (cs', Some e)
      | (cs', None) \<Rightarrow> check_items L cs' c k kvs)"

text \<open>
  \<^verbatim>\<open>check(self)\<close>:
  \<^verbatim>\<open>
    self._check_value("self", self.__dict__)
    return self
  \<close>
\<close>

definition check :: "pylib \<Rightarrow> classes \<Rightarrow> cname \<Rightarrow> (string \<times> val) list \<Rightarrow> classes \<times> error option" where
  "check L cs c fs = check_value L cs c ''self'' (VDict fs)"

section \<open>Comparison with a plain tree\<close>

text \<open>
  \<^verbatim>\<open>_equals(cls, text, a, b)\<close>; the path \<^verbatim>\<open>text\<close> only feeds the assertion messages
  and is left out.
  \<^verbatim>\<open>
    if isinstance(a, BaseDataModel):
        assert sorted(list(a.__dict__.keys())) == sorted(list(b.keys())), ...
        for k, v in a.__dict__.items():
            if k not in a.EQUALS_IGNORE_KEYS:
                if not cls._equals("%s[%s]" % (text, k), v, b[k]):
                    return False
        return True
    else:
        assert type(a) == type(b), ...
        if isinstance(a, dict):
            assert sorted(list(a.keys())) == sorted(list(b.keys())), ...
            for k, v in a.items():
                if not cls._equals("%s[%s]" % (text, k), v, b[k]):
                    return False
            return True
        elif isinstance(a, list):
            assert len(a) == len(b), ...
            for i, v in enumerate(a):
                if not cls._equals("%s[%s]" % (text, i), v, b[i]):
                    return False
            return True
        else:
            return a == b
  \<close>
  For a record \<open>a\<close>, an object \<open>b\<close> that is not a dict has no \<^verbatim>\<open>keys\<close> method
  (attribute forwarding of wrappers is not followed): AttributeError. The loops take
  the ignore list (empty for a dict) and the items of \<open>b\<close>.
\<close>

fun equals_val :: "pylib \<Rightarrow> classes \<Rightarrow> val \<Rightarrow> val \<Rightarrow> error + bool"
  and equals_items ::
    "pylib \<Rightarrow> classes \<Rightarrow> string list \<Rightarrow> (string \<times> val) list \<Rightarrow> (string \<times> val) list
       \<Rightarrow> error + bool"
  and equals_list :: "pylib \<Rightarrow> classes \<Rightarrow> val list \<Rightarrow> val list \<Rightarrow> error + bool"
where
  "equals_val L cs (VRec c fs) b =
     (case b of
        VDict bkvs \<Rightarrow>
          if sort (dict_keys fs) = sort (dict_keys bkvs)
          then equals_items L cs (EQUALS_IGNORE_KEYS (cs c)) fs bkvs
          else Inl (AssertionError LengthMismatch)
      | _ \<Rightarrow> Inl AttributeError)"
| "equals_val L cs (VDict kvs) b =
     (case b of
        VDict bkvs \<Rightarrow>
          if sort (dict_keys kvs) = sort (dict_keys bkvs)
          then equals_items L cs [] kvs bkvs
          else Inl (AssertionError LengthMismatch)
      | _ \<Rightarrow> Inl (AssertionError FormatMismatch))"
| "equals_val L cs (VList vs) b =
     (case b of
        VList bs \<Rightarrow>
          if length vs = length bs then equals_list L cs vs bs
          else Inl (AssertionError LengthMismatch)
      | _ \<Rightarrow> Inl (AssertionError FormatMismatch))"
| "equals_val L cs a b =
     (if type_of a = type_of b then py_eq L a b
      else Inl (AssertionError FormatMismatch))"
| "equals_items L cs ignore [] bkvs = Inr True"
| "equals_items L cs ignore ((k, v) # kvs) bkvs =
     (if k \<in> set ignore then equals_items L cs ignore kvs bkvs
      else
        (case dict_get bkvs k of
           None \<Rightarrow> Inl KeyError
         | Some bv \<Rightarrow>
             (case equals_val L cs v bv of
                Inl e \<Rightarrow> Inl e
              | Inr False \<Rightarrow> Inr False
              | Inr True \<Rightarrow> equals_items L cs ignore kvs bkvs)))"
| "equals_list L cs [] bs = Inr True"
| "equals_list L cs (v # vs) bs =
     (case bs of
        [] \<Rightarrow> Inl IndexError
      | bv # bs' \<Rightarrow>
          (case equals_val L cs v bv of
             Inl e \<Rightarrow> Inl e
           | Inr False \<Rightarrow> Inr False
           | Inr True \<Rightarrow> equals_list L cs vs bs'))"

text \<open>
  \<^verbatim>\<open>equals(self, data)\<close>:
  \<^verbatim>\<open>
    assert isinstance(data, dict), "..."
    return self._equals("self", self, data)
  \<close>
\<close>

definition equals ::
  "pylib \<Rightarrow> classes \<Rightarrow> cname \<Rightarrow> (string \<times> val) list \<Rightarrow> val \<Rightarrow> error + bool" where
  "equals L cs c fs data =
     (if type_of data = TDict then equals_val L cs (VRec c fs) data
      else Inl (AssertionError FormatMismatch))"

section \<open>Loading a document\<close>

text \<open>
  \<^verbatim>\<open>BaseMGDBDataModel.load_db_data(self, db_value, strict_mode=False)\<close>:
  \<^verbatim>\<open>
    if isinstance(db_value, dict):
        for k, v in self.DATA_DEFAULT_FORMAT.items():
            if k in db_value:
                if isinstance(v, BaseMGDBDataModel):
                    setattr(self, k, v.load_db_data(db_value.get(k), strict_mode))
                elif v is BaseMGDBDataModel:
                    setattr(self, k, v().load_db_data(db_value.get(k), strict_mode))
                else:
                    setattr(self, k, db_value.get(k))
    else:
        raise ValueError(...)
    return self
  \<close>
  \<open>v\<close> is the object stored in the class-level schema: in the first branch the
  load runs on that object, so the class table changes; the loaded object is then
  assigned to the field. The result is the class table and \<^verbatim>\<open>self.__dict__\<close> after
  the call, and the exception raised, if any. The recursion descends into the
  document.
\<close>

lemma dict_get_size:
  "dict_get kvs k = Some v \<Longrightarrow> size v < size_list (size_prod (\<lambda>_. 0) size) kvs"
  unfolding dict_get_def
  by (induction kvs) (auto split: if_splits)
function load_db_data ::
    "pylib \<Rightarrow> classes \<Rightarrow> cname \<Rightarrow> (string \<times> val) list \<Rightarrow> val \<Rightarrow> bool
       \<Rightarrow> (classes \<times> (string \<times> val) list) \<times> error option"
  and load_fields ::
    "pylib \<Rightarrow> classes \<Rightarrow> cname \<Rightarrow> (string \<times> val) list \<Rightarrow> string list
       \<Rightarrow> (string \<times> val) list \<Rightarrow> bool
       \<Rightarrow> (classes \<times> (string \<times> val) list) \<times> error option"
where
  "load_db_data L cs c fs db_value strict_mode =
     (case db_value of
        VDict kvs \<Rightarrow>
          load_fields L cs c fs (dict_keys (DATA_DEFAULT_FORMAT (cs c))) kvs strict_mode
      | _ \<Rightarrow> ((cs, fs), Some ValueError))"
| "load_fields L cs c fs [] kvs strict_mode = ((cs, fs), None)"
| "load_fields L cs c fs (k # ks) kvs strict_mode =
     (case dict_get kvs k of
        None \<Rightarrow> load_fields L cs c fs ks kvs strict_mode
      | Some sub \<Rightarrow>
          (case dict_get (DATA_DEFAULT_FORMAT (cs c)) k of
             Some (VRec vc vfs) \<Rightarrow>
               if issubclass cs (TRecord vc) (TRecord ''BaseMGDBDataModel'') then
                 (case load_db_data L cs vc vfs sub strict_mode of
                    ((cs1, vfs'), Some e) \<Rightarrow>
                      ((set_schema_entry cs1 c k (VRec vc vfs'), fs), Some e)
                  | ((cs1, vfs'), None) \<Rightarrow>
                      (let cs2 = set_schema_entry cs1 c k (VRec vc vfs') in
                       case BaseDataModel_setattr L cs2 c fs k (VRec vc vfs') of
                         Inl e \<Rightarrow> ((cs2, fs), Some e)
                       | Inr fs' \<Rightarrow> load_fields L cs2 c fs' ks kvs strict_mode))
               else
                 (case BaseDataModel_setattr L cs c fs k sub of
                    Inl e \<Rightarrow> ((cs, fs), Some e)
                  | Inr fs' \<Rightarrow> load_fields L cs c fs' ks kvs strict_mode)
           | Some (VType (TRecord vc)) \<Rightarrow>
               if vc = ''BaseMGDBDataModel'' then
                 (case BaseDataModel_init L cs vc [] of
                    Inl e \<Rightarrow> ((cs, fs), Some e)
                  | Inr vfs \<Rightarrow>
                      (case load_db_data L cs vc vfs sub strict_mode of
                         ((cs1, vfs'), Some e) \<Rightarrow> ((cs1, fs), Some e)
                       | ((cs1, vfs'), None) \<Rightarrow>
                           (case BaseDataModel_setattr L cs1 c fs k (VRec vc vfs') of
                              Inl e \<Rightarrow> ((cs1, fs), Some e)
                            | Inr fs' \<Rightarrow> load_fields L cs1 c fs' ks kvs strict_mode)))
               else
                 (case BaseDataModel_setattr L cs c fs k sub of
                    Inl e \<Rightarrow> ((cs, fs), Some e)
                  | Inr fs' \<Rightarrow> load_fields L cs c fs' ks kvs strict_mode)
           | _ \<Rightarrow>
               (case BaseDataModel_setattr L cs c fs k sub of
                  Inl e \<Rightarrow> ((cs, fs), Some e)
                | Inr fs' \<Rightarrow> load_fields L cs c fs' ks kvs strict_mode)))"
  by pat_completeness auto
termination
  apply (relation "measures [
      (\<lambda>x. case x of Inl (L, cs, c, fs, db, s) \<Rightarrow> size db
                    | Inr (L, cs, c, fs, ks, kvs, s) \<Rightarrow> size_list (size_prod (\<lambda>_. 0) size) kvs),
      (\<lambda>x. case x of Inl _ \<Rightarrow> 0 | Inr (L, cs, c, fs, ks, kvs, s) \<Rightarrow> Suc (length ks))]")
  apply (auto dest: dict_get_size)
  done

section \<open>Callers and example classes\<close>

text \<open>
  A runtime for the closed examples, none of which reaches one of its fields: no
  string parses, the clock stands at 0, and every operator on objects raises.
\<close>

definition no_lib :: pylib where
  "no_lib =
     \<lparr>strptime = (\<lambda>s f. None), strftime = (\<lambda>t f. []), now = 0, timestamp = (\<lambda>t. t),
      object_bool = (\<lambda>x. Inl TypeError), object_le = (\<lambda>a b. Inl TypeError),
      object_eq = (\<lambda>a b. Inl TypeError), same_object = (\<lambda>a b. False)\<rparr>"

text \<open>
  A caller that applies a list of raw values to one wrapper, in order, until a call
  raises: the wrapper after the last call made, and the exception, if any.
\<close>

fun apply_all :: "pylib \<Rightarrow> wrapper \<Rightarrow> val list \<Rightarrow> wrapper \<times> error option" where
  "apply_all L w [] = (w, None)"
| "apply_all L w (v # vs) =
     (case apply_method L w v of
        (w', Inl e) \<Rightarrow> (w', Some e)
      | (w', Inr _) \<Rightarrow> apply_all L w' vs)"

text \<open>The elements of a stored list; nothing when the stored value is not a list.\<close>

fun stored_list :: "val \<Rightarrow> val list" where
  "stored_list (VList xs) = xs"
| "stored_list _ = []"

text \<open>
  Read-only views used to state properties: a class table in which the schema of
  class \<open>c\<close> has no entry for \<open>key\<close>; the entries of a dict whose keys are not on an
  ignore list; and the condition that no schema binds a wrapper to a key that starts
  with \<^verbatim>\<open>self\<close>, as every path string of the validate walk does.
\<close>

definition without_descriptor :: "classes \<Rightarrow> cname \<Rightarrow> string \<Rightarrow> classes" where
  "without_descriptor cs c key =
     cs(c := (cs c)\<lparr>DATA_DEFAULT_FORMAT :=
                      filter (\<lambda>kv. fst kv \<noteq> key) (DATA_DEFAULT_FORMAT (cs c))\<rparr>)"

definition drop_ignored :: "string list \<Rightarrow> (string \<times> val) list \<Rightarrow> (string \<times> val) list" where
  "drop_ignored ignore kvs = filter (\<lambda>kv. fst kv \<notin> set ignore) kvs"

definition no_path_keys :: "classes \<Rightarrow> bool" where
  "no_path_keys cs =
     (\<forall>c k d. dict_get (DATA_DEFAULT_FORMAT (cs c)) k = Some (VWrap d) \<longrightarrow> take 4 k \<noteq> ''self'')"

text \<open>
  \<^verbatim>\<open>dir(BaseDataModel)\<close>: the names the class statement binds and those of
  \<^verbatim>\<open>object\<close>. The classes below \<^verbatim>\<open>BaseExtraDictDataModel\<close> and \<^verbatim>\<open>BaseDBDataModel\<close>
  add their methods.
\<close>

definition dir_BaseDataModel :: "string list" where
  "dir_BaseDataModel =
     [''DATA_DEFAULT_FORMAT'', ''EQUALS_IGNORE_KEYS'', ''STRICT_MODE'', ''__class__'',
      ''__delattr__'', ''__dict__'', ''__dir__'', ''__doc__'', ''__eq__'', ''__format__'',
      ''__ge__'', ''__getattribute__'', ''__getitem__'', ''__gt__'', ''__hash__'',
      ''__init__'', ''__init_subclass__'', ''__le__'', ''__lt__'', ''__module__'',
      ''__ne__'', ''__new__'', ''__reduce__'', ''__reduce_ex__'', ''__repr__'',
      ''__setattr__'', ''__setitem__'', ''__sizeof__'', ''__str__'', ''__subclasshook__'',
      ''__weakref__'', ''_check_key_format'', ''_check_value'', ''_equals'', ''_to_dict'',
      ''check'', ''default_value'', ''equals'', ''pre_new'', ''to_dict'', ''to_json'',
      ''update'', ''upgrade'']"

definition user_class ::
  "cname list \<Rightarrow> (string \<times> val) list \<Rightarrow> bool \<Rightarrow> string list \<Rightarrow> classdef" where
  "user_class bs schema strict ignore =
     \<lparr>bases = bs, DATA_DEFAULT_FORMAT = schema, STRICT_MODE = strict,
      EQUALS_IGNORE_KEYS = ignore,
      keys_limited =
        (if ''BaseExtraDictDataModel'' \<in> set bs then [''load_easy_data''] else []) @
        (if ''BaseDBDataModel'' \<in> set bs then [''is_exists'', ''load_db_data''] else []) @
        dir_BaseDataModel\<rparr>"

text \<open>
  The record classes of the module: \<^verbatim>\<open>BaseDataModel\<close> (also the entry of every name
  that is not bound otherwise), \<^verbatim>\<open>BaseStrictDataModel\<close>, \<^verbatim>\<open>BaseExtraDictDataModel\<close>,
  \<^verbatim>\<open>BaseDBDataModel\<close>, \<^verbatim>\<open>BaseMGDBDataModel\<close> and \<^verbatim>\<open>CommDictModel\<close>.
\<close>

definition module_classes :: classes where
  "module_classes =
     (\<lambda>c. user_class [] [] False [])
       (''BaseStrictDataModel'' := user_class [''BaseDataModel''] [] True [],
        ''BaseExtraDictDataModel'' := user_class [''BaseDataModel''] [] False [],
        ''BaseDBDataModel'' :=
           user_class [''BaseExtraDictDataModel'', ''BaseDataModel''] [] False [],
        ''BaseMGDBDataModel'' :=
           user_class [''BaseDBDataModel'', ''BaseExtraDictDataModel'', ''BaseDataModel'']
             [] False [],
        ''CommDictModel'' := user_class [''BaseDataModel''] [] False [])"

definition mgdb_bases :: "cname list" where
  "mgdb_bases =
     [''BaseMGDBDataModel'', ''BaseDBDataModel'', ''BaseExtraDictDataModel'', ''BaseDataModel'']"

text \<open>
  User classes for the closed examples.
  \<^verbatim>\<open>
  class Person(BaseDataModel):
      DATA_DEFAULT_FORMAT = {"name": "", "age": 0}
  class Profile(BaseDataModel):
      DATA_DEFAULT_FORMAT = {"opts": {"x": 1}}

  class Note(BaseStrictDataModel):
      DATA_DEFAULT_FORMAT = {"memo": None}
  class Draft(BaseDataModel):
      DATA_DEFAULT_FORMAT = {"memo": None}

  class Event(BaseDataModel):
      DATA_DEFAULT_FORMAT = {"name": "", "created": 0}
      EQUALS_IGNORE_KEYS = ["created"]

  class PersonRecord(BaseDataModel):
      DATA_DEFAULT_FORMAT = {"name": ""}
  class StrictPersonRecord(BaseStrictDataModel):
      DATA_DEFAULT_FORMAT = {"name": ""}

  class Shadow(BaseDataModel):
      DATA_DEFAULT_FORMAT = {"self.a": LimitedValueModel(0),
                             "a": ComplexValueModel(None, required=True)}
  class Row(BaseDataModel):
      DATA_DEFAULT_FORMAT = {"id": BaseDBValueModel()}

  class Account(BaseDataModel):
      DATA_DEFAULT_FORMAT = {"balance": 0,
                             "owner": ComplexValueModel(None, required=True),
                             "note": ""}

  class Child(BaseMGDBDataModel):
      DATA_DEFAULT_FORMAT = {"n": 0}
  class Parent(BaseMGDBDataModel):
      DATA_DEFAULT_FORMAT = {"c": Child()}
  class Holder(BaseMGDBDataModel):
      DATA_DEFAULT_FORMAT = {"c": Child}
  class Box(BaseMGDBDataModel):
      DATA_DEFAULT_FORMAT = {"c": BaseMGDBDataModel}
  \<close>
\<close>

definition Person_classes :: classes where
  "Person_classes =
     module_classes
       (''Person'' := user_class [''BaseDataModel'']
                        [(''name'', VStr []), (''age'', VInt 0)] False [],
        ''Profile'' := user_class [''BaseDataModel'']
                         [(''opts'', VDict [(''x'', VInt 1)])] False [])"

definition Note_classes :: classes where
  "Note_classes =
     module_classes
       (''Note'' := user_class [''BaseStrictDataModel'', ''BaseDataModel'']
                      [(''memo'', VNone)] True [],
        ''Draft'' := user_class [''BaseDataModel''] [(''memo'', VNone)] False [])"

definition Event_classes :: classes where
  "Event_classes =
     module_classes
       (''Event'' := user_class [''BaseDataModel'']
                       [(''name'', VStr []), (''created'', VInt 0)] False [''created''])"

definition PersonRecord_classes :: classes where
  "PersonRecord_classes =
     module_classes
       (''PersonRecord'' := user_class [''BaseDataModel''] [(''name'', VStr [])] False [],
        ''StrictPersonRecord'' :=
           user_class [''BaseStrictDataModel'', ''BaseDataModel''] [(''name'', VStr [])] True [])"

definition Shadow_classes :: classes where
  "Shadow_classes =
     module_classes
       (''Shadow'' := user_class [''BaseDataModel'']
                        [(''self.a'', VWrap (WLimited (VInt 0))),
                         (''a'', VWrap (WComplex VNone True))] False [],
        ''Row'' := user_class [''BaseDataModel''] [(''id'', VWrap WBaseDB)] False [])"

definition Account_classes :: classes where
  "Account_classes =
     module_classes
       (''Account'' := user_class [''BaseDataModel'']
                         [(''balance'', VInt 0), (''owner'', VWrap (WComplex VNone True)),
                          (''note'', VStr [])] False [])"

definition Family_classes :: classes where
  "Family_classes =
     module_classes
       (''Child'' := user_class mgdb_bases [(''n'', VInt 0)] False [],
        ''Parent'' := user_class mgdb_bases [(''c'', VRec ''Child'' [(''n'', VInt 0)])] False [],
        ''Holder'' := user_class mgdb_bases [(''c'', VType (TRecord ''Child''))] False [],
        ''Box'' := user_class mgdb_bases
                     [(''c'', VType (TRecord ''BaseMGDBDataModel''))] False [])"

text \<open>The class table after \<^verbatim>\<open>Parent.DATA_DEFAULT_FORMAT["c"].n\<close> has become 5.\<close>

definition Family_after :: classes where
  "Family_after =
     set_schema_entry Family_classes ''Parent'' ''c'' (VRec ''Child'' [(''n'', VInt 5)])"


section \<open>Properties of the value wrappers\<close>

lemma apply_method_error_unchanged:
  "apply_method L w v = (w', Inl e) \<Longrightarrow> w' = w"
  by (cases w)
     (auto simp: LimitedValueModel_apply_def DateTimeValueModel_apply_def
        DateTimeIntValueModel_apply_def NumberBetweenValueModel_apply_def
        ListBetweenValueModel_apply_def
        split: val.splits option.splits sum.splits bool.splits if_splits)

subsection \<open>NumberBetweenValueModel\<close>

lemma NumberBetween_apply_int:
  "apply_method L (WNumberBetween d lo hi) (VInt v) =
     (if v = lo then (WNumberBetween (VInt v) lo hi, Inr (VInt v))
      else (WNumberBetween d lo hi, Inl ValueError))"
  by (auto simp: NumberBetweenValueModel_apply_def int_le_def le_int_def split: bool.splits)

text \<open>
  C3 (the claim: with bounds \<open>min < max\<close>, every \<open>v\<close> with \<open>min < v < max\<close> is
  accepted, stored and returned). The code compares the upper bound against
  \<^verbatim>\<open>self.min\<close>: every integer strictly between the bounds is rejected with
  ValueError and the stored value stays as it was; only \<open>v = min\<close> is accepted
  (\<open>NumberBetween_apply_int\<close>).
\<close>

theorem NumberBetween_apply_rejects_interior:
  assumes "min_value < v" and "v < max_value"
  shows "apply_method L (WNumberBetween d min_value max_value) (VInt v) =
           (WNumberBetween d min_value max_value, Inl ValueError)"
  using assms NumberBetween_apply_int [of L d min_value max_value v] by simp

theorem NumberBetween_apply_rejects_interior_witness:
  "(0::int) < 5 \<and> (5::int) < 10 \<and>
   apply_method no_lib (WNumberBetween (VInt 0) 0 10) (VInt 5) =
     (WNumberBetween (VInt 0) 0 10, Inl ValueError)"
  using NumberBetween_apply_rejects_interior [of 0 5 10 no_lib "VInt 0"] by simp

subsection \<open>ComplexValueModel\<close>

text \<open>
  C8: on a \<^verbatim>\<open>ComplexValueModel\<close>, \<^verbatim>\<open>apply(0)\<close> stores and returns 0; \<^verbatim>\<open>value()\<close> then
  fails its assertion (the spec's RequiredValueError) when \<^verbatim>\<open>required\<close> is true and
  returns 0 when it is false. With \<^verbatim>\<open>required\<close> true the stored values \<^verbatim>\<open>None\<close>,
  \<^verbatim>\<open>""\<close> and \<^verbatim>\<open>[]\<close> fail the same assertion.
\<close>

theorem Complex_apply_zero_then_value:
  "apply_method L (WComplex d required) (VInt 0) = (WComplex (VInt 0) required, Inr (VInt 0)) \<and>
   value_method L cs (WComplex (VInt 0) required) =
     (if required then Inl (AssertionError ConstraintNotMet) else Inr (VInt 0)) \<and>
   value_method L cs (WComplex VNone True) = Inl (AssertionError ConstraintNotMet) \<and>
   value_method L cs (WComplex (VStr []) True) = Inl (AssertionError ConstraintNotMet) \<and>
   value_method L cs (WComplex (VList []) True) = Inl (AssertionError ConstraintNotMet)"
  by (simp add: LimitedValueModel_apply_def ComplexValueModel_value_def)

lemma Complex_value_falsy:
  "truthy L d = Inr False \<Longrightarrow>
   value_method L cs (WComplex d True) = Inl (AssertionError ConstraintNotMet)"
  by (simp add: ComplexValueModel_value_def)

subsection \<open>ListBetweenValueModel\<close>

lemma py_in_True_nonempty: "py_in L v value_list = Inr True \<Longrightarrow> value_list \<noteq> []"
  by (cases value_list) simp_all

lemma ListBetween_apply_ok:
  "py_in L v value_list = Inr True \<Longrightarrow>
   ListBetweenValueModel_apply L d value_list v =
     (WListBetween (VList (stored_list d @ [v])) value_list, Inr v)"
  by (cases d) (simp_all add: ListBetweenValueModel_apply_def py_in_True_nonempty)

lemma ListBetween_apply_bad:
  "py_in L v value_list = Inr False \<Longrightarrow>
   ListBetweenValueModel_apply L d value_list v = (WListBetween d value_list, Inl ValueError)"
  by (simp add: ListBetweenValueModel_apply_def)

lemma ListBetween_apply_raises:
  "value_list \<noteq> [] \<Longrightarrow> py_in L v value_list = Inl e \<Longrightarrow>
   ListBetweenValueModel_apply L d value_list v = (WListBetween d value_list, Inl e)"
  by (simp add: ListBetweenValueModel_apply_def)

text \<open>
  C9 as stated (three valid \<open>apply\<close> calls leave a 3-element list) fails on a
  wrapper constructed with a non-empty list as its default: the calls append to it.
  \<^verbatim>\<open>ListBetweenValueModel([9], [1, 2, 3])\<close> holds \<^verbatim>\<open>[9, 1, 2, 3]\<close> after
  \<^verbatim>\<open>apply(1)\<close>, \<^verbatim>\<open>apply(2)\<close>, \<^verbatim>\<open>apply(3)\<close>.
\<close>

theorem ListBetween_three_applies_counterexample:
  "py_in no_lib (VInt 1) [VInt 1, VInt 2, VInt 3] = Inr True \<and>
   py_in no_lib (VInt 2) [VInt 1, VInt 2, VInt 3] = Inr True \<and>
   py_in no_lib (VInt 3) [VInt 1, VInt 2, VInt 3] = Inr True \<and>
   apply_all no_lib (WListBetween (VList [VInt 9]) [VInt 1, VInt 2, VInt 3])
       [VInt 1, VInt 2, VInt 3] =
     (WListBetween (VList [VInt 9, VInt 1, VInt 2, VInt 3]) [VInt 1, VInt 2, VInt 3], None)"
  by (simp add: ListBetweenValueModel_apply_def item_matches_def)

text \<open>
  C9, amended: three successive \<open>apply\<close> calls with values for which
  \<^verbatim>\<open>value in self.value_list\<close> holds (so \<^verbatim>\<open>value_list\<close> is not empty) leave the wrapper
  holding the elements of the list it held before (none when it held no list)
  followed by the three values in call order, so exactly the three values when it
  started without a list or with the empty list; an \<open>apply\<close> with a value for
  which \<^verbatim>\<open>value in self.value_list\<close> is false then raises ValueError (the spec's
  OutOfRangeError), and one for which the membership test itself raises passes that
  exception on; both leave the accumulated list as it was.
\<close>

theorem ListBetween_accumulates:
  assumes "py_in L a value_list = Inr True"
      and "py_in L b value_list = Inr True"
      and "py_in L c value_list = Inr True"
  shows "apply_all L (WListBetween d value_list) [a, b, c] =
           (WListBetween (VList (stored_list d @ [a, b, c])) value_list, None) \<and>
         (stored_list d = [] \<longrightarrow>
            apply_all L (WListBetween d value_list) [a, b, c] =
              (WListBetween (VList [a, b, c]) value_list, None)) \<and>
         (\<forall>x. py_in L x value_list = Inr False \<longrightarrow>
            apply_method L (WListBetween (VList (stored_list d @ [a, b, c])) value_list) x =
              (WListBetween (VList (stored_list d @ [a, b, c])) value_list, Inl ValueError)) \<and>
         (\<forall>x e. py_in L x value_list = Inl e \<longrightarrow>
            apply_method L (WListBetween (VList (stored_list d @ [a, b, c])) value_list) x =
              (WListBetween (VList (stored_list d @ [a, b, c])) value_list, Inl e))"
  using assms py_in_True_nonempty [OF assms(1)]
  by (simp add: ListBetween_apply_ok ListBetween_apply_bad ListBetween_apply_raises)

theorem ListBetween_accumulates_witness:
  "apply_all no_lib (WListBetween VNone [VStr ''r'', VStr ''g'', VStr ''b''])
       [VStr ''g'', VStr ''g'', VStr ''r''] =
     (WListBetween (VList [VStr ''g'', VStr ''g'', VStr ''r''])
        [VStr ''r'', VStr ''g'', VStr ''b''], None) \<and>
   apply_method no_lib
       (WListBetween (VList [VStr ''g'', VStr ''g'', VStr ''r''])
          [VStr ''r'', VStr ''g'', VStr ''b''])
       (VStr ''x'') =
     (WListBetween (VList [VStr ''g'', VStr ''g'', VStr ''r''])
        [VStr ''r'', VStr ''g'', VStr ''b''],
      Inl ValueError)"
proof -
  have m: "py_in no_lib (VStr ''g'') [VStr ''r'', VStr ''g'', VStr ''b''] = Inr True"
          "py_in no_lib (VStr ''r'') [VStr ''r'', VStr ''g'', VStr ''b''] = Inr True"
          "py_in no_lib (VStr ''x'') [VStr ''r'', VStr ''g'', VStr ''b''] = Inr False"
    by (simp_all add: item_matches_def)
  from ListBetween_accumulates [OF m(1) m(1) m(2), of VNone] m(3)
  show ?thesis by simp
qed

subsection \<open>ListComplexValueModel\<close>

lemma to_plain_strings: "to_plain_list (map VStr xs) = Some (map PStr xs)"
  by (induction xs) simp_all

lemma list_not_in_strings: "py_in L (VList (map VStr xs)) (map VStr ys) = Inr False"
  by (induction ys) (simp_all add: item_matches_def to_plain_strings)

text \<open>
  C4 (the claim: with a permissive record class as \<^verbatim>\<open>value_cls\<close>, \<^verbatim>\<open>value()\<close>
  accepts a stored list with a dict whose keys strictly contain the schema's keys,
  and rejects it when the class is strict). In the code \<^verbatim>\<open>s1 in s0\<close> asks whether
  the list of schema keys is an element of the list of the dict's keys, which never
  holds. For every record class that can be instantiated, a stored list whose first
  element is a dict is accepted exactly when the class is strict and the dict's key
  set equals the schema's; under a permissive class \<^verbatim>\<open>value()\<close> fails with the
  assertion on index 0, whatever the keys are.
\<close>

theorem ListComplex_value_first_dict_element:
  assumes "BaseDataModel_init L cs c [] = Inr fs0"
  shows "value_method L cs
           (WListComplex (VList (VDict kvs # rest)) required need_size (VType (TRecord c)) False) =
         (if STRICT_MODE (cs c) \<and>
             sort (dict_keys kvs) = sort (dict_keys (DATA_DEFAULT_FORMAT (cs c)))
          then Inr (VList (VDict kvs # rest))
          else Inl (AssertionError (BadElement 0)))"
  using assms
  by (simp add: ListComplexValueModel_value_def ComplexValueModel_value_def Let_def
      list_not_in_strings)

lemma PersonRecord_init:
  "BaseDataModel_init no_lib PersonRecord_classes ''PersonRecord'' [] = Inr [(''name'', VStr [])]"
  "BaseDataModel_init no_lib PersonRecord_classes ''StrictPersonRecord'' [] =
     Inr [(''name'', VStr [])]"
  by (simp_all add: BaseDataModel_init_def check_key_format_def update_def
      PersonRecord_classes_def user_class_def dir_BaseDataModel_def dict_keys_def)

theorem ListComplex_value_first_dict_element_witness:
  "new_ListComplexValueModel no_lib
     (VList [VDict [(''name'', VStr ''x''), (''extra'', VInt 1)]])
     False False (VType (TRecord ''PersonRecord'')) False =
     Inr (WListComplex (VList [VDict [(''name'', VStr ''x''), (''extra'', VInt 1)]])
            False False (VType (TRecord ''PersonRecord'')) False) \<and>
   value_method no_lib PersonRecord_classes
     (WListComplex (VList [VDict [(''name'', VStr ''x''), (''extra'', VInt 1)]])
        False False (VType (TRecord ''PersonRecord'')) False) =
     Inl (AssertionError (BadElement 0)) \<and>
   value_method no_lib PersonRecord_classes
     (WListComplex (VList [VDict [(''name'', VStr ''x'')]])
        False False (VType (TRecord ''PersonRecord'')) False) =
     Inl (AssertionError (BadElement 0))"
proof -
  have s: "\<not> STRICT_MODE (PersonRecord_classes ''PersonRecord'')"
    by (simp add: PersonRecord_classes_def user_class_def)
  from ListComplex_value_first_dict_element [OF PersonRecord_init(1)] s
  show ?thesis by (simp add: new_ListComplexValueModel_def)
qed

text \<open>The strict half of the claim holds on the same elements.\<close>

lemma ListComplex_strict_examples:
  "value_method no_lib PersonRecord_classes
     (WListComplex (VList [VDict [(''name'', VStr ''x''), (''extra'', VInt 1)]])
        False False (VType (TRecord ''StrictPersonRecord'')) False) =
     Inl (AssertionError (BadElement 0)) \<and>
   value_method no_lib PersonRecord_classes
     (WListComplex (VList [VDict [(''name'', VStr ''x'')]])
        False False (VType (TRecord ''StrictPersonRecord'')) False) =
     Inr (VList [VDict [(''name'', VStr ''x'')]])"
proof -
  have i: "BaseDataModel_init no_lib PersonRecord_classes ''StrictPersonRecord'' [] =
             Inr [(''name'', VStr [])]"
    by (rule PersonRecord_init(2))
  have s: "STRICT_MODE (PersonRecord_classes ''StrictPersonRecord'')"
          "DATA_DEFAULT_FORMAT (PersonRecord_classes ''StrictPersonRecord'') =
             [(''name'', VStr [])]"
    by (simp_all add: PersonRecord_classes_def user_class_def)
  show ?thesis
    using i s
    by (simp add: ListComplexValueModel_value_def ComplexValueModel_value_def Let_def
        list_not_in_strings dict_keys_def)
qed


section \<open>Properties of assignment\<close>

lemma dict_get_keys:
  "dict_get kvs key = Some d \<Longrightarrow> key \<in> set (dict_keys kvs)"
  by (auto simp: dict_get_def dict_keys_def dest: map_of_SomeD intro: rev_image_eqI)

text \<open>
  An instance exists only when \<^verbatim>\<open>__init__\<close> passed the key guard on the schema, so a
  key of the schema is never one of the reserved names.
\<close>

lemma init_key_guard:
  assumes "BaseDataModel_init L cs c kwargs = Inr fs0"
      and "dict_get (DATA_DEFAULT_FORMAT (cs c)) key = Some d"
  shows "check_key_format cs c (VStr key) = Inr ()"
proof -
  from assms(1) have g: "check_key_format cs c (VDict (DATA_DEFAULT_FORMAT (cs c))) = Inr ()"
    by (auto simp: BaseDataModel_init_def split: sum.splits)
  from assms(2) have "key \<in> set (dict_keys (DATA_DEFAULT_FORMAT (cs c)))"
    by (rule dict_get_keys)
  with g show ?thesis
    by (auto simp: check_key_format_def list_ex_iff split: if_splits)
qed

lemma setattr_falls_through:
  assumes "check_key_format cs c (VStr key) = Inr ()"
      and "dict_get (DATA_DEFAULT_FORMAT (cs c)) key = Some d"
      and "d \<noteq> VNone"
      and "type_of d \<noteq> type_of v"
      and "\<forall>t. d = VType t \<longrightarrow> \<not> issubclass cs (type_of v) t"
      and "\<not> (type_of d = TDict \<and> is_record v)"
      and "\<not> is_LimitedValueModel d"
      and "\<not> is_BaseValueModel d"
  shows "BaseDataModel_setattr L cs c fs key v = Inr fs"
proof -
  have k: "key \<in> set (dict_keys (DATA_DEFAULT_FORMAT (cs c)))"
    using assms(2) by (rule dict_get_keys)
  have t: "\<not> (case d of VType t \<Rightarrow> issubclass cs (type_of v) t | _ \<Rightarrow> False)"
    using assms(5) by (cases d) auto
  show ?thesis
    unfolding BaseDataModel_setattr_def
    using assms(1) k t assms(2,3,4,6,7,8) by (auto simp: Let_def)
qed

lemma Person_init:
  "BaseDataModel_init no_lib Person_classes ''Person'' [] =
     Inr [(''name'', VStr []), (''age'', VInt 0)]"
  "BaseDataModel_init no_lib Person_classes ''Profile'' [] =
     Inr [(''opts'', VDict [(''x'', VInt 1)])]"
  by (simp_all add: BaseDataModel_init_def check_key_format_def update_def Person_classes_def
      user_class_def dir_BaseDataModel_def dict_keys_def)

lemma Profile_class:
  "DATA_DEFAULT_FORMAT (Person_classes ''Profile'') = [(''opts'', VDict [(''x'', VInt 1)])]"
  "STRICT_MODE (Person_classes ''Profile'') = False"
  "check_key_format Person_classes ''Profile'' (VStr ''opts'') = Inr ()"
  by (simp_all add: check_key_format_def Person_classes_def user_class_def
      dir_BaseDataModel_def)

text \<open>
  C6 as stated (an assignment that matches none of the cases 3 to 7 is dropped, where
  case 5 is the nested-record marker, the empty mapping, facing a record instance)
  fails: the code takes case 5 for every dict descriptor. \<^verbatim>\<open>Profile\<close> declares
  \<^verbatim>\<open>{"opts": {"x": 1}}\<close>; the descriptor is not \<^verbatim>\<open>None\<close>, not of the value's type, not
  a type, not the empty mapping and not a wrapper, and still
  \<^verbatim>\<open>profile.opts = Person(name="a", age=5)\<close> stores the record.
\<close>

theorem setattr_dict_descriptor_counterexample:
  "BaseDataModel_init no_lib Person_classes ''Profile'' [] =
     Inr [(''opts'', VDict [(''x'', VInt 1)])] \<and>
   \<not> STRICT_MODE (Person_classes ''Profile'') \<and>
   dict_get (DATA_DEFAULT_FORMAT (Person_classes ''Profile'')) ''opts'' =
     Some (VDict [(''x'', VInt 1)]) \<and>
   VDict [(''x'', VInt 1)] \<noteq> VNone \<and>
   type_of (VDict [(''x'', VInt 1)]) \<noteq>
     type_of (VRec ''Person'' [(''name'', VStr ''a''), (''age'', VInt 5)]) \<and>
   type_of (VDict [(''x'', VInt 1)]) \<noteq> TType \<and>
   VDict [(''x'', VInt 1)] \<noteq> VDict [] \<and>
   \<not> is_BaseValueModel (VDict [(''x'', VInt 1)]) \<and>
   BaseDataModel_setattr no_lib Person_classes ''Profile''
     [(''opts'', VDict [(''x'', VInt 1)])] ''opts''
     (VRec ''Person'' [(''name'', VStr ''a''), (''age'', VInt 5)]) =
     Inr [(''opts'', VRec ''Person'' [(''name'', VStr ''a''), (''age'', VInt 5)])]"
  by (simp add: Person_init Profile_class BaseDataModel_setattr_def dict_keys_def
      dict_get_def)

text \<open>
  C6, amended: on a record instance (of a permissive class, and of a strict one as
  well), an assignment to a field whose descriptor is not \<^verbatim>\<open>None\<close>, where the
  descriptor and the raw value have different runtime types (case 3), the descriptor
  is not a type that the value is an instance of (case 4), it is not a dict, empty
  or not, facing a record instance (case 5 as the code has it) and it is not a
  wrapper (cases 6 and 7), raises nothing and leaves \<^verbatim>\<open>__dict__\<close>, so every field, as
  it was.
\<close>

theorem setattr_unmatched_is_noop:
  assumes "BaseDataModel_init L cs c kwargs = Inr fs0"
      and "dict_get (DATA_DEFAULT_FORMAT (cs c)) key = Some d"
      and "d \<noteq> VNone"
      and "type_of d \<noteq> type_of v"
      and "\<forall>t. d = VType t \<longrightarrow> \<not> issubclass cs (type_of v) t"
      and "\<not> (type_of d = TDict \<and> is_record v)"
      and "\<not> is_LimitedValueModel d"
      and "\<not> is_BaseValueModel d"
  shows "BaseDataModel_setattr L cs c fs key v = Inr fs"
  using init_key_guard [OF assms(1,2)] assms(2-8) by (rule setattr_falls_through)

theorem setattr_unmatched_is_noop_witness:
  "BaseDataModel_init no_lib Person_classes ''Person'' [] =
     Inr [(''name'', VStr []), (''age'', VInt 0)] \<and>
   BaseDataModel_setattr no_lib Person_classes ''Person''
     [(''name'', VStr ''a''), (''age'', VInt 5)] ''age'' (VStr ''old'') =
     Inr [(''name'', VStr ''a''), (''age'', VInt 5)]"
proof -
  have d: "dict_get (DATA_DEFAULT_FORMAT (Person_classes ''Person'')) ''age'' = Some (VInt 0)"
    by (simp add: Person_classes_def user_class_def dict_get_def)
  have "BaseDataModel_setattr no_lib Person_classes ''Person''
          [(''name'', VStr ''a''), (''age'', VInt 5)] ''age'' (VStr ''old'') =
        Inr [(''name'', VStr ''a''), (''age'', VInt 5)]"
    by (rule setattr_unmatched_is_noop [OF Person_init(1) d]) simp_all
  with Person_init(1) show ?thesis by simp
qed

subsection \<open>A descriptor that is None\<close>

lemma without_descriptor_get:
  "dict_get (DATA_DEFAULT_FORMAT (without_descriptor cs c key c)) key = None"
  by (auto simp: without_descriptor_def dict_get_def map_of_eq_None_iff)

lemma without_descriptor_keys:
  "key \<notin> set (dict_keys (DATA_DEFAULT_FORMAT (without_descriptor cs c key c)))"
  by (auto simp: without_descriptor_def dict_keys_def)

lemma without_descriptor_guard:
  "check_key_format (without_descriptor cs c key) c (VStr k) = check_key_format cs c (VStr k)"
  by (simp add: check_key_format_def without_descriptor_def)

lemma Note_init:
  "BaseDataModel_init no_lib Note_classes ''Note'' [] = Inr [(''memo'', VNone)]"
  "BaseDataModel_init no_lib Note_classes ''Draft'' [] = Inr [(''memo'', VNone)]"
  by (simp_all add: BaseDataModel_init_def check_key_format_def update_def Note_classes_def
      user_class_def dir_BaseDataModel_def dict_keys_def)

text \<open>
  C10 as stated (a descriptor that is \<^verbatim>\<open>None\<close> cannot be told from a missing
  descriptor, on strict and permissive records alike) fails on a strict record: with
  the schema \<^verbatim>\<open>{"memo": None}\<close> the assignment \<^verbatim>\<open>memo = 1\<close> is stored, and with the
  entry removed from the schema the same assignment raises RuntimeError (the spec's
  UnknownFieldError).
\<close>

theorem setattr_None_descriptor_counterexample:
  "BaseDataModel_init no_lib Note_classes ''Note'' [] = Inr [(''memo'', VNone)] \<and>
   STRICT_MODE (Note_classes ''Note'') \<and>
   BaseDataModel_setattr no_lib Note_classes ''Note'' [(''memo'', VNone)] ''memo'' (VInt 1) =
     Inr [(''memo'', VInt 1)] \<and>
   DATA_DEFAULT_FORMAT (without_descriptor Note_classes ''Note'' ''memo'' ''Note'') = [] \<and>
   BaseDataModel_setattr no_lib (without_descriptor Note_classes ''Note'' ''memo'') ''Note''
     [(''memo'', VNone)] ''memo'' (VInt 1) = Inl RuntimeError"
  by (simp add: BaseDataModel_init_def BaseDataModel_setattr_def check_key_format_def
      update_def Note_classes_def without_descriptor_def
      user_class_def dir_BaseDataModel_def dict_keys_def dict_get_def)

text \<open>
  C10, amended: on every record instance, strict or permissive, an assignment to a
  field whose descriptor is \<^verbatim>\<open>None\<close> stores the raw value as it is. On a permissive
  record that is also what the assignment does when the schema has no entry for the
  field; on a strict record the assignment to a field without an entry raises
  RuntimeError instead.
\<close>

theorem setattr_None_descriptor_stores:
  assumes "BaseDataModel_init L cs c kwargs = Inr fs0"
      and "dict_get (DATA_DEFAULT_FORMAT (cs c)) key = Some VNone"
  shows "BaseDataModel_setattr L cs c fs key v = Inr (dict_set fs key v) \<and>
         BaseDataModel_setattr L (without_descriptor cs c key) c fs key v =
           (if STRICT_MODE (cs c) then Inl RuntimeError else Inr (dict_set fs key v))"
proof -
  have g: "check_key_format cs c (VStr key) = Inr ()"
    using assms by (rule init_key_guard)
  have k: "key \<in> set (dict_keys (DATA_DEFAULT_FORMAT (cs c)))"
    using assms(2) by (rule dict_get_keys)
  have s: "STRICT_MODE (without_descriptor cs c key c) = STRICT_MODE (cs c)"
    by (simp add: without_descriptor_def)
  have 1: "BaseDataModel_setattr L cs c fs key v = Inr (dict_set fs key v)"
    unfolding BaseDataModel_setattr_def using g k assms(2) by (simp add: Let_def)
  have 2: "BaseDataModel_setattr L (without_descriptor cs c key) c fs key v =
           (if STRICT_MODE (cs c) then Inl RuntimeError else Inr (dict_set fs key v))"
    unfolding BaseDataModel_setattr_def
    using g without_descriptor_keys [of key cs c]
    by (simp add: Let_def without_descriptor_guard without_descriptor_get s)
  from 1 2 show ?thesis by simp
qed

theorem setattr_None_descriptor_stores_witness:
  "BaseDataModel_setattr no_lib Note_classes ''Draft'' [(''memo'', VNone)] ''memo''
     (VList [VInt 1]) = Inr [(''memo'', VList [VInt 1])] \<and>
   BaseDataModel_setattr no_lib (without_descriptor Note_classes ''Draft'' ''memo'') ''Draft''
     [(''memo'', VNone)] ''memo'' (VList [VInt 1]) = Inr [(''memo'', VList [VInt 1])]"
proof -
  have d: "dict_get (DATA_DEFAULT_FORMAT (Note_classes ''Draft'')) ''memo'' = Some VNone"
    by (simp add: Note_classes_def user_class_def dict_get_def)
  have s: "\<not> STRICT_MODE (Note_classes ''Draft'')"
    by (simp add: Note_classes_def user_class_def)
  from setattr_None_descriptor_stores
         [OF Note_init(2) d, of "[(''memo'', VNone)]" "VList [VInt 1]"] s
  show ?thesis by simp
qed


section \<open>Properties of the validate walk\<close>

text \<open>
  Where the path string of a node is not a schema key bound to a wrapper, the walk
  takes the branches of the source other than \<^verbatim>\<open>apply\<close>.
\<close>

lemma check_value_unbound_path:
  assumes "\<And>d. dict_get (DATA_DEFAULT_FORMAT (cs c)) k \<noteq> Some (VWrap d)"
  shows "check_value L cs c k v =
     (case v of
        VType t \<Rightarrow> (cs, Some ValueError)
      | VRec c' fs \<Rightarrow> check_items L cs c' (k @ ''('' @ c' @ '')'') fs
      | VList vs \<Rightarrow> check_list L cs c k 0 vs
      | VDict kvs \<Rightarrow> check_items L cs c k kvs
      | VWrap w \<Rightarrow>
          (if is_LimitedValueModel v then
             (case value_method L cs w of Inl e \<Rightarrow> (cs, Some e) | Inr _ \<Rightarrow> (cs, None))
           else (cs, None))
      | _ \<Rightarrow> (cs, None))"
proof (cases "dict_get (DATA_DEFAULT_FORMAT (cs c)) k")
  case None
  then show ?thesis by (cases v) simp_all
next
  case (Some x)
  with assms have "\<And>d. x \<noteq> VWrap d" by simp
  with Some show ?thesis by (cases v; cases x) auto
qed

lemma check_value_no_apply:
  "no_path_keys cs \<Longrightarrow> take 4 k = ''self'' \<Longrightarrow>
   check_value L cs c k v =
     (case v of
        VType t \<Rightarrow> (cs, Some ValueError)
      | VRec c' fs \<Rightarrow> check_items L cs c' (k @ ''('' @ c' @ '')'') fs
      | VList vs \<Rightarrow> check_list L cs c k 0 vs
      | VDict kvs \<Rightarrow> check_items L cs c k kvs
      | VWrap w \<Rightarrow>
          (if is_LimitedValueModel v then
             (case value_method L cs w of Inl e \<Rightarrow> (cs, Some e) | Inr _ \<Rightarrow> (cs, None))
           else (cs, None))
      | _ \<Rightarrow> (cs, None))"
proof (rule check_value_unbound_path)
  fix d
  assume "no_path_keys cs" and "take 4 k = ''self''"
  then show "dict_get (DATA_DEFAULT_FORMAT (cs c)) k \<noteq> Some (VWrap d)"
    unfolding no_path_keys_def by blast
qed

lemma self_path_append: "take 4 k = ''self'' \<Longrightarrow> take 4 (k @ x) = ''self''"
proof -
  assume a: "take 4 k = ''self''"
  then have "length (take 4 k) = 4" by simp
  then have "4 \<le> length k" by simp
  with a show ?thesis by simp
qed

lemma check_frame:
  "no_path_keys cs \<Longrightarrow> take 4 k = ''self'' \<Longrightarrow> fst (check_value L cs c k v) = cs"
  "no_path_keys cs \<Longrightarrow> take 4 k = ''self'' \<Longrightarrow> fst (check_list L cs c k i vs) = cs"
  "no_path_keys cs \<Longrightarrow> take 4 k = ''self'' \<Longrightarrow> fst (check_items L cs c k kvs) = cs"
proof (induction L cs c k v and L cs c k i vs and L cs c k kvs
       rule: check_value_check_list_check_items.induct)
  case (2 L cs c k c' fs)
  from "2.IH" [OF "2.prems"(1) self_path_append [OF "2.prems"(2)]]
  show ?case by simp
next
  case (3 L cs c k vs)
  from "3.IH" [OF "3.prems"] show ?case by simp
next
  case (4 L cs c k kvs)
  from "4.IH" [OF "4.prems"] show ?case by simp
next
  case (7 L cs c k i p ps)
  have 1: "fst (check_value L cs c (k @ ''['' @ str_nat i @ '']'') p) = cs"
    by (rule "7.IH"(1) [OF "7.prems"(1) self_path_append [OF "7.prems"(2)]])
  show ?case
  proof (cases "check_value L cs c (k @ ''['' @ str_nat i @ '']'') p")
    case (Pair cs' r)
    with 1 have e: "cs' = cs" by simp
    show ?thesis
    proof (cases r)
      case None
      have "fst (check_list L cs c k (Suc i) ps) = cs"
        using "7.IH"(2) [of cs r] Pair e None "7.prems" by simp
      with Pair e None show ?thesis by simp
    next
      case (Some a)
      with Pair e show ?thesis by simp
    qed
  qed
next
  case (9 L cs c k k' v' kvs)
  have 1: "fst (check_value L cs c (k @ ''.'' @ k') v') = cs"
    by (rule "9.IH"(1) [OF "9.prems"(1) self_path_append [OF "9.prems"(2)]])
  show ?case
  proof (cases "check_value L cs c (k @ ''.'' @ k') v'")
    case (Pair cs' r)
    with 1 have e: "cs' = cs" by simp
    show ?thesis
    proof (cases r)
      case None
      have "fst (check_items L cs c k kvs) = cs"
        using "9.IH"(2) [of cs r] Pair e None "9.prems" by simp
      with Pair e None show ?thesis by simp
    next
      case (Some a)
      with Pair e show ?thesis by simp
    qed
  qed
qed (simp_all add: check_value_no_apply split: sum.splits del: check_value.simps)

lemma check_items_append:
  "check_items L cs c k (xs @ ys) =
     (case check_items L cs c k xs of
        (cs', Some e) \<Rightarrow> (cs', Some e)
      | (cs', None) \<Rightarrow> check_items L cs' c k ys)"
proof (induction xs arbitrary: cs)
  case Nil
  then show ?case by simp
next
  case (Cons kv xs)
  obtain k' v' where kv: "kv = (k', v')" by (cases kv)
  show ?case
  proof (cases "check_value L cs c (k @ ''.'' @ k') v'")
    case (Pair cs' r)
    then show ?thesis using Cons [of cs'] kv by (cases r) simp_all
  qed
qed

lemma Shadow_schema:
  "DATA_DEFAULT_FORMAT (Shadow_classes ''Shadow'') =
     [(''self.a'', VWrap (WLimited (VInt 0))), (''a'', VWrap (WComplex VNone True))]"
  "DATA_DEFAULT_FORMAT (Shadow_classes ''Row'') = [(''id'', VWrap WBaseDB)]"
  "keys_limited (Shadow_classes ''Shadow'') = dir_BaseDataModel"
  "keys_limited (Shadow_classes ''Row'') = dir_BaseDataModel"
  by (simp_all add: Shadow_classes_def user_class_def)

lemma Shadow_init:
  "BaseDataModel_init no_lib Shadow_classes ''Shadow'' [] =
     Inr [(''self.a'', VWrap (WLimited (VInt 0))), (''a'', VWrap (WComplex VNone True))]"
  "BaseDataModel_init no_lib Shadow_classes ''Row'' [] = Inr [(''id'', VWrap WBaseDB)]"
  by (simp_all add: BaseDataModel_init_def check_key_format_def update_def Shadow_schema
      dir_BaseDataModel_def dict_keys_def)

lemma Shadow_check:
  "check no_lib Shadow_classes ''Shadow''
     [(''self.a'', VWrap (WLimited (VInt 0))), (''a'', VWrap (WComplex VNone True))] =
   (set_schema_entry Shadow_classes ''Shadow'' ''self.a''
      (VWrap (WLimited (VWrap (WComplex VNone True)))), None)"
  by (simp add: check_def Shadow_schema dict_get_def LimitedValueModel_apply_def)

lemma Row_check:
  "check no_lib Shadow_classes ''Row'' [(''id'', VWrap WBaseDB)] = (Shadow_classes, None)"
  by (simp add: check_def Shadow_schema dict_get_def)

text \<open>
  C1 as stated (every field holding a wrapper is settled by \<^verbatim>\<open>value()\<close>, whose
  failure is the failure of the validation, and no wrapper is ever mutated through
  \<^verbatim>\<open>apply\<close>) fails twice. In class \<^verbatim>\<open>Shadow\<close> the path string \<^verbatim>\<open>self.a\<close> of field
  \<^verbatim>\<open>a\<close> is itself a schema key bound to a wrapper: \<^verbatim>\<open>check()\<close> calls \<^verbatim>\<open>apply\<close> on
  that class-level wrapper with the field's wrapper as argument, never calls the
  field's \<^verbatim>\<open>value()\<close> (which would fail its assertion) and succeeds. In class
  \<^verbatim>\<open>Row\<close> the field holds a \<^verbatim>\<open>BaseDBValueModel\<close>, which is not a
  \<^verbatim>\<open>LimitedValueModel\<close>: \<^verbatim>\<open>check()\<close> does not call its \<^verbatim>\<open>value()\<close> (which raises) and
  succeeds.
\<close>

theorem check_applies_to_schema_counterexample:
  "BaseDataModel_init no_lib Shadow_classes ''Shadow'' [] =
     Inr [(''self.a'', VWrap (WLimited (VInt 0))), (''a'', VWrap (WComplex VNone True))] \<and>
   value_method no_lib Shadow_classes (WComplex VNone True) =
     Inl (AssertionError ConstraintNotMet) \<and>
   snd (check no_lib Shadow_classes ''Shadow''
          [(''self.a'', VWrap (WLimited (VInt 0))), (''a'', VWrap (WComplex VNone True))]) = None \<and>
   DATA_DEFAULT_FORMAT
     (fst (check no_lib Shadow_classes ''Shadow''
             [(''self.a'', VWrap (WLimited (VInt 0))), (''a'', VWrap (WComplex VNone True))])
        ''Shadow'') =
     [(''self.a'', VWrap (WLimited (VWrap (WComplex VNone True)))),
      (''a'', VWrap (WComplex VNone True))] \<and>
   BaseDataModel_init no_lib Shadow_classes ''Row'' [] = Inr [(''id'', VWrap WBaseDB)] \<and>
   value_method no_lib Shadow_classes WBaseDB = Inl TypeError \<and>
   snd (check no_lib Shadow_classes ''Row'' [(''id'', VWrap WBaseDB)]) = None"
  by (simp add: Shadow_init Shadow_check Row_check ComplexValueModel_value_def
      set_schema_entry_def Shadow_schema)

text \<open>
  C1, amended: a node that holds a wrapper of the \<^verbatim>\<open>LimitedValueModel\<close> family, and
  whose path string is not a key that the schema of the walking class binds to a
  wrapper, is settled by its \<^verbatim>\<open>value()\<close>: an exception of \<^verbatim>\<open>value()\<close> is the exception
  of the validation, no \<^verbatim>\<open>apply\<close> is called and every class-level schema stays as it
  was. When no schema binds a wrapper to a key that starts with \<^verbatim>\<open>self\<close>, that is so
  at every node: \<^verbatim>\<open>check()\<close> leaves every class-level schema as it was, and at a
  field that holds such a wrapper, reached after the fields before it passed,
  \<^verbatim>\<open>check()\<close> fails with the exception of \<^verbatim>\<open>value()\<close> or goes on with the fields
  after it.
\<close>

theorem check_resolves_wrapper_field:
  assumes "is_LimitedValueModel (VWrap w)"
  shows "((\<forall>d. dict_get (DATA_DEFAULT_FORMAT (cs c)) k \<noteq> Some (VWrap d)) \<longrightarrow>
            check_value L cs c k (VWrap w) =
              (cs, case value_method L cs w of Inl e \<Rightarrow> Some e | Inr _ \<Rightarrow> None)) \<and>
         (no_path_keys cs \<longrightarrow> fst (check L cs c fs) = cs) \<and>
         (no_path_keys cs \<and> snd (check L cs c pre) = None \<longrightarrow>
            check L cs c (pre @ (f, VWrap w) # post) =
              (case value_method L cs w of
                 Inl e \<Rightarrow> (cs, Some e)
               | Inr _ \<Rightarrow> check L cs c post))"
proof (intro conjI impI)
  assume "\<forall>d. dict_get (DATA_DEFAULT_FORMAT (cs c)) k \<noteq> Some (VWrap d)"
  then have "check_value L cs c k (VWrap w) =
               (if is_LimitedValueModel (VWrap w) then
                  (case value_method L cs w of Inl e \<Rightarrow> (cs, Some e) | Inr _ \<Rightarrow> (cs, None))
                else (cs, None))"
    using check_value_unbound_path [of cs c k L "VWrap w"] by simp
  with assms show "check_value L cs c k (VWrap w) =
                     (cs, case value_method L cs w of Inl e \<Rightarrow> Some e | Inr _ \<Rightarrow> None)"
    by (cases "value_method L cs w") (simp_all del: check_value.simps)
next
  have s: "take 4 ''self'' = ''self''" by simp
  assume n: "no_path_keys cs"
  show "fst (check L cs c fs) = cs"
    unfolding check_def using check_frame(3) [OF n s, of L c fs] by simp
next
  have s: "take 4 ''self'' = ''self''" by simp
  assume a: "no_path_keys cs \<and> snd (check L cs c pre) = None"
  then have n: "no_path_keys cs" and pr: "snd (check L cs c pre) = None" by simp_all
  have "fst (check_items L cs c ''self'' pre) = cs"
    by (rule check_frame(3) [OF n s])
  with pr have p: "check_items L cs c ''self'' pre = (cs, None)"
    by (simp add: check_def prod_eq_iff)
  have k: "take 4 (''self'' @ ''.'' @ f) = ''self''" by simp
  have v: "check_value L cs c (''self'' @ ''.'' @ f) (VWrap w) =
             (case value_method L cs w of Inl e \<Rightarrow> (cs, Some e) | Inr _ \<Rightarrow> (cs, None))"
    using check_value_no_apply [OF n k, of L c "VWrap w"] assms by simp
  have i: "check_items L cs c ''self'' ((f, VWrap w) # post) =
             (case value_method L cs w of
                Inl e \<Rightarrow> (cs, Some e)
              | Inr _ \<Rightarrow> check_items L cs c ''self'' post)"
    using v by (cases "value_method L cs w") (simp_all del: check_value.simps)
  have "check L cs c (pre @ (f, VWrap w) # post) =
          check_items L cs c ''self'' (pre @ (f, VWrap w) # post)"
    by (simp add: check_def)
  also have "\<dots> = check_items L cs c ''self'' ((f, VWrap w) # post)"
    by (simp only: check_items_append p prod.case option.case)
  also have "\<dots> = (case value_method L cs w of
                      Inl e \<Rightarrow> (cs, Some e)
                    | Inr _ \<Rightarrow> check_items L cs c ''self'' post)"
    by (rule i)
  also have "\<dots> = (case value_method L cs w of
                      Inl e \<Rightarrow> (cs, Some e)
                    | Inr _ \<Rightarrow> check L cs c post)"
    by (cases "value_method L cs w") (simp_all add: check_def)
  finally show "check L cs c (pre @ (f, VWrap w) # post) =
          (case value_method L cs w of
             Inl e \<Rightarrow> (cs, Some e)
           | Inr _ \<Rightarrow> check L cs c post)" .
qed

lemma Account_no_path_keys: "no_path_keys Account_classes"
  by (auto simp: no_path_keys_def Account_classes_def module_classes_def user_class_def
      dict_get_def split: if_splits)

theorem check_resolves_wrapper_field_witness:
  "check_value no_lib Shadow_classes ''Shadow'' ''self.self.a'' (VWrap (WLimited (VInt 0))) =
     (Shadow_classes, None) \<and>
   check no_lib Account_classes ''Account''
     [(''balance'', VInt 3), (''owner'', VWrap (WComplex VNone True)), (''note'', VStr ''n'')] =
     (Account_classes, Some (AssertionError ConstraintNotMet)) \<and>
   check no_lib Account_classes ''Account''
     [(''balance'', VInt 3), (''owner'', VWrap (WComplex (VStr ''ann'') True)),
      (''note'', VStr ''n'')] =
     (Account_classes, None)"
proof -
  have pre: "snd (check no_lib Account_classes ''Account'' [(''balance'', VInt 3)]) = None"
    by (simp add: check_def Account_classes_def user_class_def dict_get_def)
  have post: "check no_lib Account_classes ''Account'' [(''note'', VStr ''n'')] =
                (Account_classes, None)"
    by (simp add: check_def Account_classes_def user_class_def dict_get_def)
  have lim0: "is_LimitedValueModel (VWrap (WLimited (VInt 0)))" by simp
  have lim1: "is_LimitedValueModel (VWrap (WComplex VNone True))" by simp
  have lim2: "is_LimitedValueModel (VWrap (WComplex (VStr ''ann'') True))" by simp
  have unbound: "\<forall>d. dict_get (DATA_DEFAULT_FORMAT (Shadow_classes ''Shadow'')) ''self.self.a'' \<noteq>
                      Some (VWrap d)"
    by (simp add: Shadow_schema dict_get_def)
  from check_resolves_wrapper_field [OF lim0,
         where cs = Shadow_classes and c = "''Shadow''" and k = "''self.self.a''"
           and L = no_lib] unbound
  have 0: "check_value no_lib Shadow_classes ''Shadow'' ''self.self.a''
             (VWrap (WLimited (VInt 0))) = (Shadow_classes, None)"
    by (simp del: check_value.simps)
  from check_resolves_wrapper_field [OF lim1,
         where cs = Account_classes and c = "''Account''" and L = no_lib
           and pre = "[(''balance'', VInt 3)]" and f = "''owner''"
           and post = "[(''note'', VStr ''n'')]"] Account_no_path_keys pre
  have 1: "check no_lib Account_classes ''Account''
     [(''balance'', VInt 3), (''owner'', VWrap (WComplex VNone True)), (''note'', VStr ''n'')] =
     (Account_classes, Some (AssertionError ConstraintNotMet))"
    by (simp add: ComplexValueModel_value_def)
  from check_resolves_wrapper_field [OF lim2,
         where cs = Account_classes and c = "''Account''" and L = no_lib
           and pre = "[(''balance'', VInt 3)]" and f = "''owner''"
           and post = "[(''note'', VStr ''n'')]"] Account_no_path_keys pre post
  have 2: "check no_lib Account_classes ''Account''
     [(''balance'', VInt 3), (''owner'', VWrap (WComplex (VStr ''ann'') True)),
      (''note'', VStr ''n'')] =
     (Account_classes, None)"
    by (simp add: ComplexValueModel_value_def)
  from 0 1 2 show ?thesis by simp
qed

section \<open>Properties of the comparison\<close>

lemma sort_eq_iff_mset: "sort xs = sort ys \<longleftrightarrow> mset xs = mset ys"
proof
  assume "sort xs = sort ys"
  then have "mset (sort xs) = mset (sort ys)" by simp
  then show "mset xs = mset ys" by simp
next
  assume "mset xs = mset ys"
  then show "sort xs = sort ys"
    by (metis mset_sort properties_for_sort sorted_sort)
qed

lemma drop_ignored_keys:
  "sort (dict_keys fs) = sort (dict_keys b) \<Longrightarrow>
   sort (dict_keys (drop_ignored ign fs)) = sort (dict_keys (drop_ignored ign b))"
proof -
  assume "sort (dict_keys fs) = sort (dict_keys b)"
  then have m: "mset (map fst fs) = mset (map fst b)"
    by (simp add: sort_eq_iff_mset dict_keys_def)
  have f: "\<And>xs. map fst (filter (\<lambda>kv. fst kv \<notin> set ign) xs) =
                 filter (\<lambda>k. k \<notin> set ign) (map fst xs)"
    by (simp add: filter_map comp_def)
  have "mset (filter (\<lambda>k. k \<notin> set ign) (map fst fs)) =
        mset (filter (\<lambda>k. k \<notin> set ign) (map fst b))"
    using m by (simp only: mset_filter)
  then show ?thesis
    by (simp add: sort_eq_iff_mset dict_keys_def drop_ignored_def f)
qed

lemma dict_get_drop_ignored:
  "k \<notin> set ign \<Longrightarrow> dict_get (drop_ignored ign b) k = dict_get b k"
  by (induction b) (auto simp: dict_get_def drop_ignored_def)

lemma equals_items_drop_ignored:
  "equals_items L cs ign fs b = equals_items L cs [] (drop_ignored ign fs) (drop_ignored ign b)"
proof (induction fs)
  case Nil
  then show ?case by (simp add: drop_ignored_def)
next
  case (Cons kv fs)
  obtain k v where kv: "kv = (k, v)" by (cases kv)
  show ?case
  proof (cases "k \<in> set ign")
    case True
    with Cons kv show ?thesis by (simp add: drop_ignored_def)
  next
    case False
    have "drop_ignored ign (kv # fs) = (k, v) # drop_ignored ign fs"
      using False kv by (simp add: drop_ignored_def)
    with Cons False kv show ?thesis
      by (simp add: dict_get_drop_ignored split: option.splits sum.splits bool.splits)
  qed
qed

text \<open>
  C5 as stated (a target that omits exactly the ignored keys passes the key-set
  check) fails: \<^verbatim>\<open>Event\<close> ignores \<^verbatim>\<open>created\<close>, and comparing an instance with the
  fields \<^verbatim>\<open>name\<close> and \<^verbatim>\<open>created\<close> against \<^verbatim>\<open>{"name": "a"}\<close> fails the assertion
  on the key sets.
\<close>

theorem equals_record_omitted_ignored_key_counterexample:
  "EQUALS_IGNORE_KEYS (Event_classes ''Event'') = [''created''] \<and>
   equals no_lib Event_classes ''Event'' [(''name'', VStr ''a''), (''created'', VInt 7)]
     (VDict [(''name'', VStr ''a'')]) = Inl (AssertionError LengthMismatch)"
  by (simp add: equals_def Event_classes_def user_class_def dict_keys_def)

text \<open>
  C5, amended: \<^verbatim>\<open>equals\<close> of a record instance against a dict requires the key set
  of the dict to equal the set of all field names, ignored ones included, and fails
  its assertion otherwise; when the key sets are equal the outcome is that of
  comparing, as plain dicts, the fields and the target entries whose keys are not
  on \<^verbatim>\<open>EQUALS_IGNORE_KEYS\<close>: the values under ignored keys are never compared.
\<close>

theorem equals_record_needs_all_keys:
  "(sort (dict_keys fs) \<noteq> sort (dict_keys b) \<longrightarrow>
      equals L cs c fs (VDict b) = Inl (AssertionError LengthMismatch)) \<and>
   (sort (dict_keys fs) = sort (dict_keys b) \<longrightarrow>
      equals L cs c fs (VDict b) =
        equals_val L cs (VDict (drop_ignored (EQUALS_IGNORE_KEYS (cs c)) fs))
                      (VDict (drop_ignored (EQUALS_IGNORE_KEYS (cs c)) b)))"
proof -
  have "sort (dict_keys fs) = sort (dict_keys b) \<Longrightarrow>
        equals L cs c fs (VDict b) =
          equals_val L cs (VDict (drop_ignored (EQUALS_IGNORE_KEYS (cs c)) fs))
                        (VDict (drop_ignored (EQUALS_IGNORE_KEYS (cs c)) b))"
    using drop_ignored_keys [of fs b "EQUALS_IGNORE_KEYS (cs c)"]
          equals_items_drop_ignored [of L cs "EQUALS_IGNORE_KEYS (cs c)" fs b]
    by (simp add: equals_def)
  then show ?thesis by (simp add: equals_def)
qed

theorem equals_record_needs_all_keys_witness:
  "equals no_lib Event_classes ''Event'' [(''name'', VStr ''a''), (''created'', VInt 7)]
     (VDict [(''created'', VStr ''later''), (''name'', VStr ''a'')]) = Inr True \<and>
   equals no_lib Event_classes ''Event'' [(''name'', VStr ''a''), (''created'', VInt 7)]
     (VDict [(''name'', VStr ''a''), (''extra'', VInt 7)]) = Inl (AssertionError LengthMismatch)"
proof -
  have i: "EQUALS_IGNORE_KEYS (Event_classes ''Event'') = [''created'']"
    by (simp add: Event_classes_def user_class_def)
  have s: "sort (dict_keys [(''name'', VStr ''a''), (''created'', VInt 7)]) =
           sort (dict_keys [(''created'', VStr ''later''), (''name'', VStr ''a'')])"
    by (simp add: dict_keys_def)
  have n: "sort (dict_keys [(''name'', VStr ''a''), (''created'', VInt 7)]) \<noteq>
           sort (dict_keys [(''name'', VStr ''a''), (''extra'', VInt 7)])"
    by (simp add: dict_keys_def)
  from equals_record_needs_all_keys
         [of "[(''name'', VStr ''a''), (''created'', VInt 7)]"
             "[(''created'', VStr ''later''), (''name'', VStr ''a'')]" no_lib Event_classes
             "''Event''"] s
  have 1: "equals no_lib Event_classes ''Event'' [(''name'', VStr ''a''), (''created'', VInt 7)]
             (VDict [(''created'', VStr ''later''), (''name'', VStr ''a'')]) = Inr True"
    by (simp add: i drop_ignored_def dict_keys_def dict_get_def py_eq_def)
  from equals_record_needs_all_keys
         [of "[(''name'', VStr ''a''), (''created'', VInt 7)]"
             "[(''name'', VStr ''a''), (''extra'', VInt 7)]" no_lib Event_classes
             "''Event''"] n
  have 2: "equals no_lib Event_classes ''Event'' [(''name'', VStr ''a''), (''created'', VInt 7)]
             (VDict [(''name'', VStr ''a''), (''extra'', VInt 7)]) =
           Inl (AssertionError LengthMismatch)"
    by simp
  from 1 2 show ?thesis by simp
qed

section \<open>Properties of the document load\<close>

lemma Family_schema:
  "DATA_DEFAULT_FORMAT (Family_classes ''Child'') = [(''n'', VInt 0)]"
  "DATA_DEFAULT_FORMAT (Family_classes ''Parent'') = [(''c'', VRec ''Child'' [(''n'', VInt 0)])]"
  "DATA_DEFAULT_FORMAT (Family_classes ''Holder'') = [(''c'', VType (TRecord ''Child''))]"
  "bases (Family_classes ''Child'') = mgdb_bases"
  "STRICT_MODE (Family_classes ''Child'') = False"
  "STRICT_MODE (Family_classes ''Parent'') = False"
  "STRICT_MODE (Family_classes ''Holder'') = False"
  by (simp_all add: Family_classes_def user_class_def)

lemma Family_guard:
  "check_key_format Family_classes ''Child'' (VStr ''n'') = Inr ()"
  "check_key_format Family_classes ''Parent'' (VStr ''c'') = Inr ()"
  "check_key_format Family_classes ''Holder'' (VStr ''c'') = Inr ()"
  "check_key_format Family_classes ''Parent''
     (VDict [(''c'', VRec ''Child'' [(''n'', VInt 0)])]) = Inr ()"
  "check_key_format Family_classes ''Holder'' (VDict [(''c'', VType (TRecord ''Child''))]) = Inr ()"
  by (simp_all add: check_key_format_def Family_classes_def user_class_def mgdb_bases_def
      dir_BaseDataModel_def dict_keys_def)

lemma Family_init:
  "BaseDataModel_init no_lib Family_classes ''Parent'' [] =
     Inr [(''c'', VRec ''Child'' [(''n'', VInt 0)])]"
  "BaseDataModel_init no_lib Family_classes ''Holder'' [] =
     Inr [(''c'', VType (TRecord ''Child''))]"
  by (simp_all add: BaseDataModel_init_def Family_schema Family_guard update_def)

lemma Child_load:
  "load_db_data no_lib Family_classes ''Child'' [(''n'', VInt 0)] (VDict [(''n'', VInt 5)]) False =
     ((Family_classes, [(''n'', VInt 5)]), None)"
  by (simp add: Family_schema Family_guard dict_keys_def dict_get_def
      BaseDataModel_setattr_def Let_def)

lemma Family_after_guard:
  "check_key_format Family_after ''Parent'' (VStr ''c'') = Inr ()"
  "check_key_format Family_after ''Parent''
     (VDict [(''c'', VRec ''Child'' [(''n'', VInt 5)])]) = Inr ()"
  "DATA_DEFAULT_FORMAT (Family_after ''Parent'') = [(''c'', VRec ''Child'' [(''n'', VInt 5)])]"
  "STRICT_MODE (Family_after ''Parent'') = False"
  by (simp_all add: Family_after_def set_schema_entry_def check_key_format_def
      Family_classes_def user_class_def mgdb_bases_def dir_BaseDataModel_def dict_keys_def)

lemma Parent_load:
  "load_db_data no_lib Family_classes ''Parent'' [(''c'', VRec ''Child'' [(''n'', VInt 0)])]
     (VDict [(''c'', VDict [(''n'', VInt 5)])]) False =
     ((Family_after, [(''c'', VRec ''Child'' [(''n'', VInt 5)])]), None)"
proof -
  have sub: "issubclass Family_classes (TRecord ''Child'') (TRecord ''BaseMGDBDataModel'')"
    by (simp add: Family_schema mgdb_bases_def)
  have set: "BaseDataModel_setattr no_lib Family_after ''Parent''
               [(''c'', VRec ''Child'' [(''n'', VInt 0)])] ''c'' (VRec ''Child'' [(''n'', VInt 5)]) =
             Inr [(''c'', VRec ''Child'' [(''n'', VInt 5)])]"
    by (simp add: BaseDataModel_setattr_def Family_after_guard dict_keys_def dict_get_def Let_def)
  have "load_fields no_lib Family_classes ''Parent'' [(''c'', VRec ''Child'' [(''n'', VInt 0)])]
          [''c''] [(''c'', VDict [(''n'', VInt 5)])] False =
        ((Family_after, [(''c'', VRec ''Child'' [(''n'', VInt 5)])]), None)"
    using sub set Child_load
    by (simp add: Family_schema dict_get_def Family_after_def [symmetric] Let_def
        del: load_db_data.simps issubclass.simps)
  then show ?thesis
    by (simp add: Family_schema dict_keys_def del: load_fields.simps)
qed

text \<open>
  C2 (the claim: no operation on one instance changes state that is observable
  through another instance or through the class-level schema). \<^verbatim>\<open>Parent\<close> declares
  the descriptor \<^verbatim>\<open>Child()\<close>; \<^verbatim>\<open>load_db_data\<close> on one \<^verbatim>\<open>Parent\<close> instance loads
  the sub-document into that class-level \<^verbatim>\<open>Child\<close> object: afterwards
  \<^verbatim>\<open>Parent.DATA_DEFAULT_FORMAT["c"].n\<close> is 5, and a \<^verbatim>\<open>Parent\<close> constructed next starts
  with \<^verbatim>\<open>c.n == 5\<close> where one constructed before the load started with 0.
\<close>

theorem load_db_data_changes_class_schema:
  "BaseDataModel_init no_lib Family_classes ''Parent'' [] =
     Inr [(''c'', VRec ''Child'' [(''n'', VInt 0)])] \<and>
   snd (load_db_data no_lib Family_classes ''Parent'' [(''c'', VRec ''Child'' [(''n'', VInt 0)])]
          (VDict [(''c'', VDict [(''n'', VInt 5)])]) False) = None \<and>
   DATA_DEFAULT_FORMAT
     (fst (fst (load_db_data no_lib Family_classes ''Parent''
                  [(''c'', VRec ''Child'' [(''n'', VInt 0)])]
                  (VDict [(''c'', VDict [(''n'', VInt 5)])]) False)) ''Parent'') =
     [(''c'', VRec ''Child'' [(''n'', VInt 5)])] \<and>
   BaseDataModel_init no_lib
     (fst (fst (load_db_data no_lib Family_classes ''Parent''
                  [(''c'', VRec ''Child'' [(''n'', VInt 0)])]
                  (VDict [(''c'', VDict [(''n'', VInt 5)])]) False))) ''Parent'' [] =
     Inr [(''c'', VRec ''Child'' [(''n'', VInt 5)])]"
proof -
  have "BaseDataModel_init no_lib Family_after ''Parent'' [] =
          Inr [(''c'', VRec ''Child'' [(''n'', VInt 5)])]"
    by (simp add: BaseDataModel_init_def Family_after_guard update_def)
  then show ?thesis
    by (simp add: Parent_load Family_init Family_after_guard del: load_db_data.simps)
qed

text \<open>
  C7 (the claim: for every type reference to a nested record class, a fresh instance
  is constructed, loaded from the sub-document and assigned). The code tests
  \<^verbatim>\<open>v is BaseMGDBDataModel\<close>: for a reference to any other class, a proper subclass
  included, the raw sub-document goes to \<^verbatim>\<open>setattr\<close>, which drops a dict facing a
  type descriptor. On an existing instance the field is skipped: no instance is
  constructed and the field keeps the value it had.
\<close>

theorem load_skips_subclass_type_reference:
  assumes "BaseDataModel_init L cs c kwargs = Inr fs0"
      and "dict_get (DATA_DEFAULT_FORMAT (cs c)) k = Some (VType (TRecord vc))"
      and "vc \<noteq> ''BaseMGDBDataModel''"
      and "dict_get kvs k = Some (VDict sub)"
  shows "load_fields L cs c fs (k # ks) kvs strict_mode = load_fields L cs c fs ks kvs strict_mode"
proof -
  have "BaseDataModel_setattr L cs c fs k (VDict sub) = Inr fs"
    by (rule setattr_falls_through [OF init_key_guard [OF assms(1,2)] assms(2)]) simp_all
  with assms(2,3,4) show ?thesis by simp
qed

theorem load_skips_subclass_type_reference_witness:
  "issubclass Family_classes (TRecord ''Child'') (TRecord ''BaseMGDBDataModel'') \<and>
   load_db_data no_lib Family_classes ''Holder'' [(''c'', VType (TRecord ''Child''))]
     (VDict [(''c'', VDict [(''n'', VInt 5)])]) False =
     ((Family_classes, [(''c'', VType (TRecord ''Child''))]), None)"
proof -
  have sub: "issubclass Family_classes (TRecord ''Child'') (TRecord ''BaseMGDBDataModel'')"
    by (simp add: Family_schema mgdb_bases_def)
  have d: "dict_get (DATA_DEFAULT_FORMAT (Family_classes ''Holder'')) ''c'' =
             Some (VType (TRecord ''Child''))"
    by (simp add: Family_schema dict_get_def)
  have n: "''Child'' \<noteq> ''BaseMGDBDataModel''" by simp
  have g: "dict_get [(''c'', VDict [(''n'', VInt 5)])] ''c'' = Some (VDict [(''n'', VInt 5)])"
    by (simp add: dict_get_def)
  have "load_fields no_lib Family_classes ''Holder'' [(''c'', VType (TRecord ''Child''))]
          [''c''] [(''c'', VDict [(''n'', VInt 5)])] False =
        load_fields no_lib Family_classes ''Holder'' [(''c'', VType (TRecord ''Child''))]
          [] [(''c'', VDict [(''n'', VInt 5)])] False"
    by (rule load_skips_subclass_type_reference [OF Family_init(2) d n g])
  then have "load_db_data no_lib Family_classes ''Holder'' [(''c'', VType (TRecord ''Child''))]
     (VDict [(''c'', VDict [(''n'', VInt 5)])]) False =
     ((Family_classes, [(''c'', VType (TRecord ''Child''))]), None)"
    by (simp add: Family_schema dict_keys_def del: load_fields.simps(2))
  with sub show ?thesis by simp
qed

text \<open>
  Only the reference to \<^verbatim>\<open>BaseMGDBDataModel\<close> itself, whose schema is empty, takes
  the branch that constructs an instance.
\<close>

lemma load_base_type_reference_example:
  "load_db_data no_lib Family_classes ''Box'' [(''c'', VType (TRecord ''BaseMGDBDataModel''))]
     (VDict [(''c'', VDict [(''n'', VInt 5)])]) False =
     ((Family_classes, [(''c'', VRec ''BaseMGDBDataModel'' [])]), None)"
proof -
  have c: "DATA_DEFAULT_FORMAT (Family_classes ''Box'') =
             [(''c'', VType (TRecord ''BaseMGDBDataModel''))]"
          "DATA_DEFAULT_FORMAT (Family_classes ''BaseMGDBDataModel'') = []"
          "STRICT_MODE (Family_classes ''Box'') = False"
    by (simp_all add: Family_classes_def module_classes_def user_class_def)
  have g: "check_key_format Family_classes ''Box'' (VStr ''c'') = Inr ()"
          "check_key_format Family_classes ''BaseMGDBDataModel'' (VDict []) = Inr ()"
    by (simp_all add: check_key_format_def Family_classes_def module_classes_def
        user_class_def mgdb_bases_def dir_BaseDataModel_def dict_keys_def)
  have i: "BaseDataModel_init no_lib Family_classes ''BaseMGDBDataModel'' [] = Inr []"
    by (simp add: BaseDataModel_init_def c g update_def)
  have l: "load_db_data no_lib Family_classes ''BaseMGDBDataModel'' []
             (VDict [(''n'', VInt 5)]) False = ((Family_classes, []), None)"
    by (simp add: c dict_keys_def)
  have s: "BaseDataModel_setattr no_lib Family_classes ''Box''
             [(''c'', VType (TRecord ''BaseMGDBDataModel''))] ''c''
             (VRec ''BaseMGDBDataModel'' []) =
           Inr [(''c'', VRec ''BaseMGDBDataModel'' [])]"
    by (simp add: BaseDataModel_setattr_def c g dict_keys_def dict_get_def Let_def)
  have "load_fields no_lib Family_classes ''Box''
          [(''c'', VType (TRecord ''BaseMGDBDataModel''))] [''c'']
          [(''c'', VDict [(''n'', VInt 5)])] False =
        ((Family_classes, [(''c'', VRec ''BaseMGDBDataModel'' [])]), None)"
    using i l s by (simp add: c dict_get_def del: load_db_data.simps)
  then show ?thesis
    by (simp add: c dict_keys_def del: load_fields.simps)
qed

end
